theory Spec2Isabelle
  imports Complex_Main
begin

section \<open>Numbers, strings and keypoints\<close>

text \<open>
  JavaScript numbers are modelled as \<^typ>\<open>real\<close> (coordinates, scores, angles) and
  \<^typ>\<open>int\<close> (millisecond timestamps of \<^verbatim>\<open>Date.now()\<close>). Rounding of doubles and
  the values NaN and Infinity are outside the model, except where a division by zero of the
  source is written out as its own branch. A JavaScript value that may be \<^verbatim>\<open>null\<close> or
  \<^verbatim>\<open>undefined\<close> is an \<^typ>\<open>'a option\<close>; truthiness tests are written out.
\<close>

record keypoint =
  kp_name :: string
  kp_x :: real
  kp_y :: real
  kp_score :: real

text \<open>A frame is the array of keypoints; an entry may be \<^verbatim>\<open>null\<close>.\<close>

type_synonym keypoints = "keypoint option list"

text \<open>
  \<^verbatim>\<open>toLowerCase\<close> on the ASCII range: the codes 65 to 90 (A to Z) move up by 32, every other
  byte stays. Joint names are ASCII.
\<close>

definition toLowerChar :: "char \<Rightarrow> char" where
  "toLowerChar c =
     (let n = (of_char c :: nat)
      in if 65 \<le> n \<and> n \<le> 90 then char_of (n + 32) else c)"

definition toLowerCase :: "string \<Rightarrow> string" where
  "toLowerCase s = map toLowerChar s"

fun startsWith :: "string \<Rightarrow> string \<Rightarrow> bool" where
  "startsWith s [] = True"
| "startsWith [] (p # ps) = False"
| "startsWith (c # cs) (p # ps) = (c = p \<and> startsWith cs ps)"

text \<open>\<^verbatim>\<open>s.includes(sub)\<close>: \<open>sub\<close> occurs in \<open>s\<close> as a contiguous substring.\<close>

fun includes_str :: "string \<Rightarrow> string \<Rightarrow> bool" where
  "includes_str [] sub = (sub = [])"
| "includes_str (c # cs) sub = (startsWith (c # cs) sub \<or> includes_str cs sub)"

text \<open>
  The predicate of \<^verbatim>\<open>getKeypoint\<close>:
  \<^verbatim>\<open>kp && kp.name && kp.name.toLowerCase().includes(name.toLowerCase()) && kp.score > 0.3\<close>.
\<close>

definition kpMatches :: "string \<Rightarrow> keypoint option \<Rightarrow> bool" where
  "kpMatches nm kp =
     (case kp of
        None \<Rightarrow> False
      | Some k \<Rightarrow> kp_name k \<noteq> [] \<and>
                 includes_str (toLowerCase (kp_name k)) (toLowerCase nm) \<and>
                 kp_score k > 3 / 10)"

text \<open>\<^verbatim>\<open>keypoints.find(...)\<close>: the first entry in array order that satisfies the predicate.\<close>

definition getKeypoint :: "keypoints \<Rightarrow> string \<Rightarrow> keypoint option" where
  "getKeypoint keypoints nm =
     (case List.find (kpMatches nm) keypoints of
        Some kp \<Rightarrow> kp
      | None \<Rightarrow> None)"

text \<open>\<^verbatim>\<open>a || b\<close> on values that are an object or \<^verbatim>\<open>undefined\<close>.\<close>

definition orElse :: "'a option \<Rightarrow> 'a option \<Rightarrow> 'a option" where
  "orElse a b = (case a of Some v \<Rightarrow> Some v | None \<Rightarrow> b)"

text \<open>\<^verbatim>\<open>kp?.y\<close> as a truthy number: absent when the point is missing or its \<open>y\<close> is 0.\<close>

definition truthyY :: "keypoint option \<Rightarrow> real option" where
  "truthyY kp =
     (case kp of
        None \<Rightarrow> None
      | Some k \<Rightarrow> (if kp_y k = 0 then None else Some (kp_y k)))"

text \<open>\<^verbatim>\<open>v || 0\<close>, and the coercion of \<^verbatim>\<open>null\<close> to 0 in arithmetic.\<close>

definition orZero :: "real option \<Rightarrow> real" where
  "orZero v = (case v of Some r \<Rightarrow> r | None \<Rightarrow> 0)"

section \<open>Movement data points\<close>

record dataPoint =
  timestamp :: int
  hipY :: "real option"
  kneeY :: "real option"
  shoulderY :: "real option"
  chestY :: "real option"
  centerY :: real
  hasFullBody :: bool

definition chestPosition :: "keypoint option \<Rightarrow> keypoint option \<Rightarrow> keypoint option \<Rightarrow> real option" where
  "chestPosition leftShoulder rightShoulder nose =
     (case (leftShoulder, rightShoulder) of
        (Some l, Some r) \<Rightarrow> Some ((kp_y l + kp_y r) / 2)
      | (Some l, None) \<Rightarrow> Some (kp_y l)
      | (None, Some r) \<Rightarrow> Some (kp_y r)
      | (None, None) \<Rightarrow> (case nose of Some n \<Rightarrow> Some (kp_y n + 50) | None \<Rightarrow> None))"

definition createDataPoint :: "keypoints \<Rightarrow> int \<Rightarrow> dataPoint option" where
  "createDataPoint keypoints ts =
     (if keypoints = [] then None
      else
        let leftHip = getKeypoint keypoints ''left_hip'';
            rightHip = getKeypoint keypoints ''right_hip'';
            leftKnee = getKeypoint keypoints ''left_knee'';
            rightKnee = getKeypoint keypoints ''right_knee'';
            leftShoulder = getKeypoint keypoints ''left_shoulder'';
            rightShoulder = getKeypoint keypoints ''right_shoulder'';
            nose = getKeypoint keypoints ''nose'';
            hasUpperBody = (leftShoulder \<noteq> None \<or> rightShoulder \<noteq> None \<or> nose \<noteq> None);
            hasLowerBody = (leftHip \<noteq> None \<or> rightHip \<noteq> None)
        in
          if \<not> hasUpperBody \<and> \<not> hasLowerBody then None
          else
            let chest = chestPosition leftShoulder rightShoulder nose;
                hip = orElse leftHip rightHip;
                knee = orElse leftKnee rightKnee;
                shoulder = orElse leftShoulder rightShoulder
            in Some \<lparr>timestamp = ts,
                     hipY = truthyY hip,
                     kneeY = truthyY knee,
                     shoulderY = truthyY shoulder,
                     chestY = chest,
                     centerY =
                       (if hasLowerBody
                        then (orZero (truthyY hip)
                              + orZero (orElse (truthyY knee) (truthyY hip))
                              + orZero (orElse (truthyY shoulder) (truthyY hip))) / 3
                        else orZero chest),
                     hasFullBody = (hasLowerBody \<and> hasUpperBody)\<rparr>)"

section \<open>The tracking session\<close>

datatype breathing_rate = SLOW | NORMAL | FAST

datatype breathing_consistency = STEADY | ERRATIC

datatype signal_confidence = LOW | MEDIUM | HIGH

record breathingSample =
  b_timestamp :: int
  b_chestY :: real

record repRecord =
  r_timestamp :: int
  duration :: int
  formQuality :: string

record suggestion =
  stype :: string
  message :: string
  priority :: string

record prediction =
  fatigueLevel :: string
  riskOfMistake :: string
  suggestions :: "suggestion list"

text \<open>
  The result of a form classifier. \<open>angles\<close> lists the named angles of the returned object in
  order; the early "no opinion" return has none, and \<^verbatim>\<open>hipAngle\<close> may be \<^verbatim>\<open>null\<close>.
\<close>

record formResult =
  feedback :: string
  isValid :: bool
  angles :: "(string \<times> real option) list"

text \<open>
  The state of one \<^verbatim>\<open>usePresage(exercise, isActive)\<close> instance: the two props, the React
  state cells and the refs.
\<close>

record session =
  exercise :: "string option"
  isActive :: bool
  predictions :: "prediction option"
  isAnalyzing :: bool
  breathingRate :: breathing_rate
  breathingConsistency :: breathing_consistency
  signalConfidence :: signal_confidence
  movementHistory :: "dataPoint list"
  repHistory :: "repRecord list"
  breathingHistory :: "breathingSample list"
  lastRepTime :: "int option"
  lastPredictionTime :: int
  lastBreathingAnalysis :: int

definition HISTORY_WINDOW :: int where "HISTORY_WINDOW = 3000"
definition PREDICTION_INTERVAL :: int where "PREDICTION_INTERVAL = 5000"
definition MIN_REPS_FOR_ANALYSIS :: nat where "MIN_REPS_FOR_ANALYSIS = 3"
definition BREATHING_ANALYSIS_INTERVAL :: int where "BREATHING_ANALYSIS_INTERVAL = 3000"
definition BREATHING_WINDOW :: int where "BREATHING_WINDOW = 10000"

definition initialSession :: "string option \<Rightarrow> bool \<Rightarrow> session" where
  "initialSession ex act =
     \<lparr>exercise = ex, isActive = act, predictions = None, isAnalyzing = False,
      breathingRate = NORMAL, breathingConsistency = STEADY, signalConfidence = MEDIUM,
      movementHistory = [], repHistory = [], breathingHistory = [],
      lastRepTime = None, lastPredictionTime = 0, lastBreathingAnalysis = 0\<rparr>"

text \<open>Truthiness of the \<^verbatim>\<open>exercise\<close> prop, of a number and of a nullable number.\<close>

definition exerciseSelected :: "string option \<Rightarrow> bool" where
  "exerciseSelected ex = (case ex of None \<Rightarrow> False | Some s \<Rightarrow> s \<noteq> [])"

definition truthyNum :: "real option \<Rightarrow> bool" where
  "truthyNum v = (case v of None \<Rightarrow> False | Some r \<Rightarrow> r \<noteq> 0)"

definition truthyTime :: "int option \<Rightarrow> bool" where
  "truthyTime v = (case v of None \<Rightarrow> False | Some t \<Rightarrow> t \<noteq> 0)"

subsection \<open>trackMovement\<close>

text \<open>
  \<open>now0\<close>, \<open>now1\<close> and \<open>now2\<close> are the readings of the three \<^verbatim>\<open>Date.now()\<close> calls, in
  program order (the second is only read when an exercise is selected). A \<^verbatim>\<open>null\<close> frame
  returns at once, as the empty frame does.
\<close>

definition trackMovement :: "session \<Rightarrow> keypoints \<Rightarrow> int \<Rightarrow> int \<Rightarrow> int \<Rightarrow> session" where
  "trackMovement st keypoints now0 now1 now2 =
     (if \<not> isActive st then st
      else
        case createDataPoint keypoints now0 of
          None \<Rightarrow> st
        | Some dp \<Rightarrow>
            let st1 =
                  (if truthyNum (chestY dp)
                   then st\<lparr>breathingHistory := breathingHistory st @
                              [\<lparr>b_timestamp = timestamp dp, b_chestY = orZero (chestY dp)\<rparr>]\<rparr>
                   else st);
                st2 =
                  (if exerciseSelected (exercise st1)
                   then st1\<lparr>movementHistory :=
                              filter (\<lambda>point. timestamp point > now1 - HISTORY_WINDOW)
                                (movementHistory st1 @ [dp])\<rparr>
                   else st1)
            in st2\<lparr>breathingHistory :=
                     filter (\<lambda>point. b_timestamp point > now2 - BREATHING_WINDOW)
                       (breathingHistory st2)\<rparr>)"

subsection \<open>trackRep\<close>

text \<open>
  \<^verbatim>\<open>xs.reduce(f)\<close> without an initial value: the first element seeds the accumulator.
  On the empty array JavaScript throws; both uses below are behind the guard
  \<^verbatim>\<open>history.length < 10\<close>, so that branch is never taken.
\<close>

fun reduce1 :: "('a \<Rightarrow> 'a \<Rightarrow> 'a) \<Rightarrow> 'a list \<Rightarrow> 'a option" where
  "reduce1 f [] = None"
| "reduce1 f (v # vs) = Some (foldl f v vs)"

text \<open>\<^verbatim>\<open>xs.slice(-n)\<close>: the last \<open>n\<close> elements, or all of them when there are fewer.\<close>

definition sliceLast :: "nat \<Rightarrow> 'a list \<Rightarrow> 'a list" where
  "sliceLast n vs = drop (length vs - n) vs"

text \<open>\<^verbatim>\<open>formAnalysis?.isValid\<close> as a condition.\<close>

definition formValid :: "formResult option \<Rightarrow> bool" where
  "formValid formAnalysis = (case formAnalysis of None \<Rightarrow> False | Some r \<Rightarrow> isValid r)"

text \<open>
  The block under the comment \<^verbatim>\<open>// Rep completed\<close>, which the squat and the push-up
  branch of \<^verbatim>\<open>trackRep\<close> both contain verbatim. \<open>now\<close> is its \<^verbatim>\<open>Date.now()\<close> reading.
\<close>

definition recordRep :: "session \<Rightarrow> formResult option \<Rightarrow> int \<Rightarrow> session" where
  "recordRep st formAnalysis now =
     (let st1 =
            (if truthyTime (lastRepTime st)
             then
               let repDuration = now - (case lastRepTime st of Some t \<Rightarrow> t | None \<Rightarrow> 0);
                   pushed = repHistory st @
                     [\<lparr>r_timestamp = now, duration = repDuration,
                       formQuality = (if formValid formAnalysis then ''good'' else ''poor'')\<rparr>]
               in st\<lparr>repHistory := (if length pushed > 10 then tl pushed else pushed)\<rparr>
             else st)
      in st1\<lparr>lastRepTime := Some now\<rparr>)"

definition lowerCenter :: "dataPoint \<Rightarrow> dataPoint \<Rightarrow> dataPoint" where
  "lowerCenter mn point = (if centerY point > centerY mn then point else mn)"

definition lowerShoulder :: "dataPoint \<Rightarrow> dataPoint \<Rightarrow> dataPoint" where
  "lowerShoulder mn point =
     (if truthyNum (shoulderY point) \<and> truthyNum (shoulderY mn)
      then (if orZero (shoulderY point) > orZero (shoulderY mn) then point else mn)
      else mn)"

text \<open>The condition of the squat branch: \<^verbatim>\<open>wasLower && !isAtBottom && formAnalysis?.isValid\<close>.\<close>

definition squatRepCompleted :: "dataPoint list \<Rightarrow> dataPoint \<Rightarrow> dataPoint \<Rightarrow> formResult option \<Rightarrow> bool" where
  "squatRepCompleted history lowestPoint dp formAnalysis =
     (let isAtBottom = \<bar>centerY dp - centerY lowestPoint\<bar> < 20;
          recentPoints = sliceLast 5 history;
          wasLower = list_ex (\<lambda>p. centerY p > centerY dp + 30) recentPoints
      in wasLower \<and> \<not> isAtBottom \<and> formValid formAnalysis)"

text \<open>
  The condition of the push-up branch, given the elbow angle:
  \<^verbatim>\<open>wasLower && !isAtBottom && isAtTop && formAnalysis?.isValid\<close>.
\<close>

definition pushUpRepCompleted :: "dataPoint list \<Rightarrow> dataPoint \<Rightarrow> dataPoint \<Rightarrow> real \<Rightarrow> formResult option \<Rightarrow> bool" where
  "pushUpRepCompleted history lowestPoint dp elbowAngle formAnalysis =
     (let isAtBottom = \<bar>orZero (shoulderY dp) - orZero (shoulderY lowestPoint)\<bar> < 20;
          recentPoints = sliceLast 5 history;
          wasLower = list_ex (\<lambda>p. truthyNum (shoulderY p) \<and> truthyNum (shoulderY dp) \<and>
                                   orZero (shoulderY p) > orZero (shoulderY dp) + 30) recentPoints;
          isAtTop = elbowAngle > 160
      in wasLower \<and> \<not> isAtBottom \<and> isAtTop \<and> formValid formAnalysis)"

text \<open>
  \<^verbatim>\<open>calculateAngle\<close> is imported from \<^verbatim>\<open>../lib/angleUtils\<close>, which is not among the
  sources; it is a parameter. \<open>now0\<close> is the \<^verbatim>\<open>Date.now()\<close> reading passed to
  \<^verbatim>\<open>createDataPoint\<close>, \<open>now1\<close> the one taken when a rep is completed.
\<close>

definition trackRep ::
  "(keypoint \<Rightarrow> keypoint \<Rightarrow> keypoint \<Rightarrow> real) \<Rightarrow> session \<Rightarrow> keypoints \<Rightarrow> formResult option \<Rightarrow> int \<Rightarrow> int \<Rightarrow> session" where
  "trackRep calculateAngle st keypoints formAnalysis now0 now1 =
     (if \<not> isActive st \<or> \<not> exerciseSelected (exercise st) then st
      else
        case createDataPoint keypoints now0 of
          None \<Rightarrow> st
        | Some dp \<Rightarrow>
            let history = movementHistory st in
            if length history < 10 then st
            else if exercise st = Some ''squat'' then
              (case reduce1 lowerCenter history of
                 None \<Rightarrow> st
               | Some lowestPoint \<Rightarrow>
                   if squatRepCompleted history lowestPoint dp formAnalysis
                   then recordRep st formAnalysis now1
                   else st)
            else if exercise st = Some ''push-up'' then
              (if \<not> truthyNum (shoulderY dp) then st
               else
                 case reduce1 lowerShoulder history of
                   None \<Rightarrow> st
                 | Some lowestPoint \<Rightarrow>
                     if \<not> truthyNum (shoulderY lowestPoint) then st
                     else
                       (case (getKeypoint keypoints ''shoulder'',
                              getKeypoint keypoints ''elbow'',
                              getKeypoint keypoints ''wrist'') of
                          (Some shoulder, Some elbow, Some wrist) \<Rightarrow>
                            if pushUpRepCompleted history lowestPoint dp
                                 (calculateAngle shoulder elbow wrist) formAnalysis
                            then recordRep st formAnalysis now1
                            else st
                        | _ \<Rightarrow> st))
            else st)"

subsection \<open>analyzeAndPredict and getPredictions\<close>

text \<open>Decimal rendering of a length in a template literal.\<close>

fun showNat :: "nat \<Rightarrow> string" where
  "showNat n =
     (if n < 10 then [''0123456789'' ! n]
      else showNat (n div 10) @ [''0123456789'' ! (n mod 10)])"

declare showNat.simps [simp del]

definition encouragement :: "nat \<Rightarrow> suggestion" where
  "encouragement n =
     \<lparr>stype = ''encouragement'',
      message = ''Great work! You've completed '' @ showNat n @ '' reps. Keep it up!'',
      priority = ''low''\<rparr>"

definition pushSuggestion :: "suggestion \<Rightarrow> prediction \<Rightarrow> prediction" where
  "pushSuggestion s p = p\<lparr>suggestions := suggestions p @ [s]\<rparr>"

text \<open>The two early returns of \<^verbatim>\<open>analyzeAndPredict\<close>; past them \<^verbatim>\<open>isAnalyzing\<close> is set.\<close>

definition analysisRuns :: "session \<Rightarrow> bool" where
  "analysisRuns st =
     (isActive st \<and> exerciseSelected (exercise st) \<and>
      \<not> (length (movementHistory st) < 20 \<or> length (repHistory st) < MIN_REPS_FOR_ANALYSIS))"

definition averageDuration :: "repRecord list \<Rightarrow> real \<Rightarrow> real" where
  "averageDuration reps n = real_of_int (foldl (\<lambda>sum rep. sum + duration rep) 0 reps) / n"

text \<open>
  \<^verbatim>\<open>speedIncrease\<close> and \<^verbatim>\<open>formDeclining\<close> as functions of the last five reps. On an empty
  list the source divides 0 by 0 and every comparison with the resulting NaN is false; the
  caller never passes one (it returns before, for fewer than three reps).
\<close>

definition speedIncreaseOf :: "repRecord list \<Rightarrow> bool" where
  "speedIncreaseOf recentReps =
     (if recentReps = [] then False else
      let avgRepDuration = averageDuration recentReps (real (length recentReps));
          speedTrend =
            (if length recentReps \<ge> 3
             then averageDuration (sliceLast 3 recentReps) 3
             else avgRepDuration)
      in speedTrend > avgRepDuration * (12 / 10))"

definition formDecliningOf :: "repRecord list \<Rightarrow> bool" where
  "formDecliningOf recentReps =
     (if recentReps = [] then False else
      let recentFormQuality =
            real (length (filter (\<lambda>rep. formQuality rep = ''good'') recentReps))
              / real (length recentReps)
      in recentFormQuality < 6 / 10)"

definition varianceOf :: "real list \<Rightarrow> real" where
  "varianceOf vs =
     (let avg = foldl (\<lambda>sum v. sum + v) 0 vs / real (length vs)
      in foldl (\<lambda>sum v. sum + (v - avg) ^ 2) 0 vs / real (length vs))"

text \<open>
  The four fatigue and form rules of \<^verbatim>\<open>analyzeAndPredict\<close>, in source order, applied to the
  fresh prediction object; \<open>recentLength\<close> is \<^verbatim>\<open>recentReps.length\<close>.
\<close>

definition classifyRisk :: "bool \<Rightarrow> bool \<Rightarrow> bool \<Rightarrow> nat \<Rightarrow> prediction" where
  "classifyRisk speedIncrease formDeclining highVariability recentLength =
     (let p0 = \<lparr>fatigueLevel = ''low'', riskOfMistake = ''low'', suggestions = []\<rparr>;
          p1 = (if speedIncrease \<and> recentLength \<ge> 3
                then pushSuggestion
                       \<lparr>stype = ''fatigue'',
                        message = ''You're slowing down. Consider taking a short break soon.'',
                        priority = ''medium''\<rparr>
                       (p0\<lparr>fatigueLevel := ''medium''\<rparr>)
                else p0);
          p2 = (if speedIncrease \<and> formDeclining
                then pushSuggestion
                       \<lparr>stype = ''fatigue'',
                        message = ''Take a short break to avoid fatigue and maintain good form.'',
                        priority = ''high''\<rparr>
                       (p1\<lparr>fatigueLevel := ''high''\<rparr>)
                else p1);
          p3 = (if formDeclining \<and> \<not> speedIncrease
                then pushSuggestion
                       \<lparr>stype = ''form'',
                        message = ''Focus on maintaining your form. Slow down if needed.'',
                        priority = ''medium''\<rparr>
                       (p2\<lparr>riskOfMistake := ''medium''\<rparr>)
                else p2)
      in if highVariability \<and> formDeclining
         then pushSuggestion
                \<lparr>stype = ''form'',
                 message = ''Your posture may weaken after the next rep. Slow down and focus on form.'',
                 priority = ''high''\<rparr>
                (p3\<lparr>riskOfMistake := ''high''\<rparr>)
         else p3)"

definition analyzeAndPredict :: "session \<Rightarrow> prediction option" where
  "analyzeAndPredict st =
     (if \<not> analysisRuns st then None
      else
        let history = movementHistory st;
            reps = repHistory st;
            recentReps = sliceLast 5 reps;
            speedIncrease = speedIncreaseOf recentReps;
            formDeclining = formDecliningOf recentReps;
            recentPoints = sliceLast 30 history;
            highVariability = varianceOf (map centerY recentPoints) > 1000;
            p4 = classifyRisk speedIncrease formDeclining highVariability (length recentReps);
            p5 = (if length reps > 0 \<and> length reps mod 5 = 0
                  then pushSuggestion (encouragement (length reps)) p4
                  else p4)
        in if length (suggestions p5) > 0 then Some p5 else None)"

text \<open>
  \<^verbatim>\<open>getPredictions\<close> returns a value and updates the session: the throttle timestamp, the
  \<^verbatim>\<open>predictions\<close> state cell (only on a non-null result) and \<^verbatim>\<open>isAnalyzing\<close>.
\<close>

definition getPredictions :: "session \<Rightarrow> int \<Rightarrow> prediction option \<times> session" where
  "getPredictions st now =
     (if now - lastPredictionTime st < PREDICTION_INTERVAL then (predictions st, st)
      else
        let st1 = st\<lparr>lastPredictionTime := now\<rparr>;
            newPredictions = analyzeAndPredict st1;
            st2 = (if analysisRuns st1 then st1\<lparr>isAnalyzing := False\<rparr> else st1)
        in case newPredictions of
             Some p \<Rightarrow> (Some p, st2\<lparr>predictions := Some p\<rparr>)
           | None \<Rightarrow> (None, st2))"

subsection \<open>analyzeBreathing\<close>

definition confidenceOf :: "real \<Rightarrow> signal_confidence" where
  "confidenceOf stdDev =
     (if stdDev < 5 then LOW
      else if stdDev > 50 then LOW
      else if stdDev > 20 then MEDIUM
      else HIGH)"

definition isPeak :: "real list \<Rightarrow> nat \<Rightarrow> bool" where
  "isPeak chestPositions i =
     (chestPositions ! i > chestPositions ! (i - 1) \<and> chestPositions ! i > chestPositions ! (i + 1))"

definition isValley :: "real list \<Rightarrow> nat \<Rightarrow> bool" where
  "isValley chestPositions i =
     (chestPositions ! i < chestPositions ! (i - 1) \<and> chestPositions ! i < chestPositions ! (i + 1))"

text \<open>
  \<^verbatim>\<open>(cycles / timeSpan) * 60000\<close> with at least two cycles: a zero time span gives Infinity,
  which is neither below 10 nor at most 25.
\<close>

definition rateOf :: "nat \<Rightarrow> int \<Rightarrow> breathing_rate" where
  "rateOf cycles timeSpan =
     (if timeSpan = 0 then FAST
      else
        let cyclesPerMinute = (real cycles / real_of_int timeSpan) * 60000
        in if cyclesPerMinute < 10 then SLOW
           else if cyclesPerMinute > 25 then FAST
           else NORMAL)"

text \<open>
  The coefficient of variation \<^verbatim>\<open>durationStdDev / avgDuration\<close>: with a zero average it is
  Infinity for a positive deviation and NaN for a zero one.
\<close>

definition consistencyOf :: "int list \<Rightarrow> breathing_consistency" where
  "consistencyOf cycleDurations =
     (let ds = map real_of_int cycleDurations;
          avgDuration = foldl (\<lambda>sum d. sum + d) 0 ds / real (length ds);
          durationStdDev = sqrt (varianceOf ds)
      in if avgDuration = 0 then (if durationStdDev > 0 then ERRATIC else STEADY)
         else if durationStdDev / avgDuration > 3 / 10 then ERRATIC
         else STEADY)"

definition analyzeBreathing :: "session \<Rightarrow> session" where
  "analyzeBreathing st =
     (let breathingData = breathingHistory st in
      if length breathingData < 30 then st\<lparr>signalConfidence := LOW\<rparr>
      else
        let chestPositions = map b_chestY breathingData;
            stdDev = sqrt (varianceOf chestPositions);
            st1 = st\<lparr>signalConfidence := confidenceOf stdDev\<rparr>;
            peaks = filter (isPeak chestPositions) [1..<length chestPositions - 1];
            valleys = filter (isValley chestPositions) [1..<length chestPositions - 1]
        in
          if length peaks < 2 \<or> length valleys < 2 then st1
          else
            let timeSpan = b_timestamp (breathingData ! (length breathingData - 1))
                             - b_timestamp (breathingData ! 0);
                cycles = min (length peaks) (length valleys);
                st2 = st1\<lparr>breathingRate := rateOf cycles timeSpan\<rparr>;
                peakTimes = map (\<lambda>i. b_timestamp (breathingData ! i)) peaks;
                cycleDurations = map (\<lambda>i. peakTimes ! i - peakTimes ! (i - 1)) [1..<length peakTimes]
            in if length cycleDurations \<ge> 2
               then st2\<lparr>breathingConsistency := consistencyOf cycleDurations\<rparr>
               else st2)"

text \<open>The interval callback of the breathing effect; the interval exists only while active.\<close>

definition breathingTick :: "session \<Rightarrow> int \<Rightarrow> session" where
  "breathingTick st now =
     (if \<not> isActive st then st
      else if now - lastBreathingAnalysis st \<ge> BREATHING_ANALYSIS_INTERVAL
      then (analyzeBreathing st)\<lparr>lastBreathingAnalysis := now\<rparr>
      else st)"

subsection \<open>The reset effect\<close>

text \<open>
  The body of the effect under the comment
  \<^verbatim>\<open>Reset tracking when exercise changes or stops\<close>, with dependencies
  \<^verbatim>\<open>[isActive, exercise]\<close>.
\<close>

definition resetEffect :: "session \<Rightarrow> session" where
  "resetEffect st =
     (if \<not> isActive st
      then st\<lparr>movementHistory := [], repHistory := [], breathingHistory := [],
              lastRepTime := None, predictions := None, breathingRate := NORMAL,
              breathingConsistency := STEADY, signalConfidence := MEDIUM\<rparr>
      else st)"

text \<open>
  A render with new props: React runs the effect when a dependency differs from the previous
  render.
\<close>

definition rerender :: "session \<Rightarrow> string option \<Rightarrow> bool \<Rightarrow> session" where
  "rerender st ex act =
     (let st1 = st\<lparr>exercise := ex, isActive := act\<rparr>
      in if isActive st \<noteq> act \<or> exercise st \<noteq> ex then resetEffect st1 else st1)"

subsection \<open>Sessions as event sequences\<close>

datatype event =
    TrackMovement keypoints int int int
  | TrackRep keypoints "formResult option" int int
  | GetPredictions int
  | BreathingTick int
  | Rerender "string option" bool

definition step :: "(keypoint \<Rightarrow> keypoint \<Rightarrow> keypoint \<Rightarrow> real) \<Rightarrow> session \<Rightarrow> event \<Rightarrow> session" where
  "step calculateAngle st ev =
     (case ev of
        TrackMovement keypoints now0 now1 now2 \<Rightarrow> trackMovement st keypoints now0 now1 now2
      | TrackRep keypoints formAnalysis now0 now1 \<Rightarrow>
          trackRep calculateAngle st keypoints formAnalysis now0 now1
      | GetPredictions now \<Rightarrow> snd (getPredictions st now)
      | BreathingTick now \<Rightarrow> breathingTick st now
      | Rerender ex act \<Rightarrow> rerender st ex act)"

definition run :: "(keypoint \<Rightarrow> keypoint \<Rightarrow> keypoint \<Rightarrow> real) \<Rightarrow> session \<Rightarrow> event list \<Rightarrow> session" where
  "run calculateAngle st evs = foldl (step calculateAngle) st evs"

section \<open>Exercise form classifiers\<close>

text \<open>
  \<^verbatim>\<open>findKeypoint\<close> and \<^verbatim>\<open>calculateAngle\<close> are imported from \<^verbatim>\<open>./angleUtils\<close>, which is
  not among the sources; both are parameters of the classifiers.
\<close>

type_synonym finder = "keypoints \<Rightarrow> string \<Rightarrow> keypoint option"
type_synonym angleFn = "keypoint \<Rightarrow> keypoint \<Rightarrow> keypoint \<Rightarrow> real"

definition noOpinion :: formResult where
  "noOpinion = \<lparr>feedback = [], isValid = False, angles = []\<rparr>"

subsection \<open>analyzeSquat\<close>

definition backAlignmentMessage :: string where
  "backAlignmentMessage = ''Keep your back straight and chest up''"

definition kneeAlignmentMessage :: string where
  "kneeAlignmentMessage = ''Keep your knees aligned with your toes, don't let them cave in''"

definition squatDepth :: "real \<Rightarrow> string \<times> bool" where
  "squatDepth kneeAngle =
     (if kneeAngle > 160 then (''Bend your knees more to go deeper into the squat'', False)
      else if kneeAngle < 70 then (''Great depth! Keep your knees aligned with your toes'', True)
      else if kneeAngle < 100 then (''Good form! You're getting deep into the squat'', True)
      else (''You're doing great! Keep it up!'', True))"

definition backAlignmentCheck :: "real option \<Rightarrow> string \<times> bool \<Rightarrow> string \<times> bool" where
  "backAlignmentCheck hipAngle fv =
     (case hipAngle of
        None \<Rightarrow> fv
      | Some a \<Rightarrow> (if a < 150 then (backAlignmentMessage, False) else fv))"

text \<open>\<^verbatim>\<open>kneeAnkleAlignment / (hipKneeDistance || 1)\<close>.\<close>

definition alignmentRatio :: "keypoint \<Rightarrow> keypoint \<Rightarrow> keypoint \<Rightarrow> real" where
  "alignmentRatio hip knee ankle =
     (let kneeAnkleAlignment = \<bar>kp_x knee - kp_x ankle\<bar>;
          hipKneeDistance = sqrt ((kp_x hip - kp_x knee) ^ 2 + (kp_y hip - kp_y knee) ^ 2)
      in kneeAnkleAlignment / (if hipKneeDistance = 0 then 1 else hipKneeDistance))"

definition kneeAlignmentCheck :: "real \<Rightarrow> string \<times> bool \<Rightarrow> string \<times> bool" where
  "kneeAlignmentCheck ratio fv = (if ratio > 3 / 10 then (kneeAlignmentMessage, False) else fv)"

definition analyzeSquat :: "finder \<Rightarrow> angleFn \<Rightarrow> keypoints \<Rightarrow> formResult" where
  "analyzeSquat findKeypoint calculateAngle keypoints =
     (let leftHip = findKeypoint keypoints ''left_hip'';
          rightHip = findKeypoint keypoints ''right_hip'';
          leftKnee = findKeypoint keypoints ''left_knee'';
          rightKnee = findKeypoint keypoints ''right_knee'';
          leftAnkle = findKeypoint keypoints ''left_ankle'';
          rightAnkle = findKeypoint keypoints ''right_ankle'';
          leftShoulder = findKeypoint keypoints ''left_shoulder'';
          rightShoulder = findKeypoint keypoints ''right_shoulder''
      in case (orElse leftHip rightHip, orElse leftKnee rightKnee, orElse leftAnkle rightAnkle) of
           (Some hip, Some knee, Some ankle) \<Rightarrow>
             let kneeAngle = calculateAngle hip knee ankle;
                 hipAngle = (case orElse leftShoulder rightShoulder of
                               Some shoulder \<Rightarrow> Some (calculateAngle shoulder hip knee)
                             | None \<Rightarrow> None);
                 fv = kneeAlignmentCheck (alignmentRatio hip knee ankle)
                        (backAlignmentCheck hipAngle (squatDepth kneeAngle))
             in \<lparr>feedback = fst fv, isValid = snd fv,
                 angles = [(''kneeAngle'', Some kneeAngle), (''hipAngle'', hipAngle)]\<rparr>
         | _ \<Rightarrow> noOpinion)"

subsection \<open>analyzePushUp\<close>

definition elbowDepth :: "real \<Rightarrow> string \<times> bool" where
  "elbowDepth elbowAngle =
     (if elbowAngle > 170 then (''Lower your body more to get full range of motion'', False)
      else if elbowAngle < 80 then (''Excellent depth! You're going all the way down'', True)
      else if elbowAngle < 100 then (''Good depth! Keep your body straight'', True)
      else if elbowAngle < 140 then (''You're doing great! Try to go a bit deeper'', True)
      else (''Lower your body more for a complete push-up'', False))"

definition bodyAlignmentCheck :: "real option \<Rightarrow> string \<times> bool \<Rightarrow> string \<times> bool" where
  "bodyAlignmentCheck bodyAngle fv =
     (case bodyAngle of
        None \<Rightarrow> fv
      | Some a \<Rightarrow> (if a < 160 then (''Keep your body in a straight line from head to toe'', False)
                   else fv))"

definition handPositionCheck :: "keypoint \<Rightarrow> keypoint \<Rightarrow> string \<times> bool \<Rightarrow> string \<times> bool" where
  "handPositionCheck shoulder wrist fv =
     (if kp_x wrist < kp_x shoulder - 50
      then (''Keep your hands directly under your shoulders'', False)
      else fv)"

definition elbowFlareCheck :: "keypoint \<Rightarrow> keypoint \<Rightarrow> string \<times> bool \<Rightarrow> string \<times> bool" where
  "elbowFlareCheck shoulder elbow fv =
     (let horizontalDistance = \<bar>kp_x elbow - kp_x shoulder\<bar>;
          verticalDistance = \<bar>kp_y elbow - kp_y shoulder\<bar>;
          flareRatio = horizontalDistance / (if verticalDistance = 0 then 1 else verticalDistance)
      in if flareRatio > 15 / 10
         then (''Keep your elbows closer to your body, not flared out'', False)
         else fv)"

definition analyzePushUp :: "finder \<Rightarrow> angleFn \<Rightarrow> keypoints \<Rightarrow> formResult" where
  "analyzePushUp findKeypoint calculateAngle keypoints =
     (let leftShoulder = findKeypoint keypoints ''left_shoulder'';
          rightShoulder = findKeypoint keypoints ''right_shoulder'';
          leftElbow = findKeypoint keypoints ''left_elbow'';
          rightElbow = findKeypoint keypoints ''right_elbow'';
          leftWrist = findKeypoint keypoints ''left_wrist'';
          rightWrist = findKeypoint keypoints ''right_wrist'';
          leftHip = findKeypoint keypoints ''left_hip'';
          rightHip = findKeypoint keypoints ''right_hip'';
          leftAnkle = findKeypoint keypoints ''left_ankle'';
          rightAnkle = findKeypoint keypoints ''right_ankle''
      in case (orElse leftShoulder rightShoulder, orElse leftElbow rightElbow,
               orElse leftWrist rightWrist) of
           (Some shoulder, Some elbow, Some wrist) \<Rightarrow>
             let elbowAngle = calculateAngle shoulder elbow wrist;
                 bodyAngle = (case (orElse leftHip rightHip, orElse leftAnkle rightAnkle) of
                                (Some hip, Some ankle) \<Rightarrow> Some (calculateAngle shoulder hip ankle)
                              | _ \<Rightarrow> None);
                 fv = elbowFlareCheck shoulder elbow
                        (handPositionCheck shoulder wrist
                           (bodyAlignmentCheck bodyAngle (elbowDepth elbowAngle)))
             in \<lparr>feedback = fst fv, isValid = snd fv, angles = [(''elbowAngle'', Some elbowAngle)]\<rparr>
         | _ \<Rightarrow> noOpinion)"

subsection \<open>The angle at a vertex\<close>

text \<open>
  Modelled from the spec: \<^verbatim>\<open>calculateAngle\<close> of \<^verbatim>\<open>angleUtils\<close> is not among the sources.
  The spec describes it as the angle at vertex \<open>b\<close> formed by the rays from \<open>b\<close> to \<open>a\<close> and
  from \<open>b\<close> to \<open>c\<close>, in degrees, in the range from 0 to 180, and leaves the value for a
  zero-length segment open (180 is taken here). It is used only to instantiate the
  \<open>calculateAngle\<close> parameter at concrete frames; every general statement below holds for an
  arbitrary angle function.
\<close>

definition angleBetween :: angleFn where
  "angleBetween a b c =
     (let ux = kp_x a - kp_x b; uy = kp_y a - kp_y b;
          vx = kp_x c - kp_x b; vy = kp_y c - kp_y b;
          lu = sqrt (ux ^ 2 + uy ^ 2); lv = sqrt (vx ^ 2 + vy ^ 2)
      in if lu = 0 \<or> lv = 0 then 180
         else arccos ((ux * vx + uy * vy) / (lu * lv)) * 180 / pi)"

section \<open>Example frames and sessions\<close>

text \<open>
  A squat frame seen from the side: hip, knee and ankle of the left leg, the thigh horizontal
  and the shin vertical, at height \<open>v\<close> of hip and knee.
\<close>

definition squatFrame :: "real \<Rightarrow> keypoints" where
  "squatFrame v =
     [Some \<lparr>kp_name = ''left_hip'', kp_x = 220, kp_y = v, kp_score = 9 / 10\<rparr>,
      Some \<lparr>kp_name = ''left_knee'', kp_x = 320, kp_y = v, kp_score = 9 / 10\<rparr>,
      Some \<lparr>kp_name = ''left_ankle'', kp_x = 320, kp_y = v + 100, kp_score = 9 / 10\<rparr>]"

definition squatSample :: "int \<Rightarrow> real \<Rightarrow> dataPoint" where
  "squatSample t v =
     \<lparr>timestamp = t, hipY = Some v, kneeY = Some v, shoulderY = None, chestY = None,
      centerY = v, hasFullBody = False\<rparr>"

definition goodForm :: formResult where
  "goodForm =
     \<lparr>feedback = ''Good form! You're getting deep into the squat'', isValid = True,
      angles = [(''kneeAngle'', Some 90), (''hipAngle'', None)]\<rparr>"

text \<open>
  Twenty frames, 100 ms apart: fifteen standing at height 200, then five at the bottom of a
  squat at height 300.
\<close>

definition squatMoves :: "event list" where
  "squatMoves =
     map (\<lambda>(t, v). TrackMovement (squatFrame v) t t t)
       [(1000, 200), (1100, 200), (1200, 200), (1300, 200), (1400, 200),
        (1500, 200), (1600, 200), (1700, 200), (1800, 200), (1900, 200),
        (2000, 200), (2100, 200), (2200, 200), (2300, 200), (2400, 200),
        (2500, 300), (2600, 300), (2700, 300), (2800, 300), (2900, 300)]"

definition squatHistory :: "dataPoint list" where
  "squatHistory =
     map (\<lambda>(t, v). squatSample t v)
       [(1000, 200), (1100, 200), (1200, 200), (1300, 200), (1400, 200),
        (1500, 200), (1600, 200), (1700, 200), (1800, 200), (1900, 200),
        (2000, 200), (2100, 200), (2200, 200), (2300, 200), (2400, 200),
        (2500, 300), (2600, 300), (2700, 300), (2800, 300), (2900, 300)]"

text \<open>The frame back up at height 200, with the form result of that frame, read at time \<open>t\<close>.\<close>

definition repAt :: "int \<Rightarrow> event" where
  "repAt t = TrackRep (squatFrame 200) (Some (analyzeSquat getKeypoint angleBetween (squatFrame 200))) t t"

definition squatStart :: session where
  "squatStart = initialSession (Some ''squat'') True"

text \<open>Detected rep completions, 100 ms apart.\<close>

definition fiveReps :: "event list" where
  "fiveReps = map repAt [3000, 3100, 3200, 3300, 3400]"

definition sixReps :: "event list" where
  "sixReps = map repAt [3000, 3100, 3200, 3300, 3400, 3500]"

definition sixteenReps :: "event list" where
  "sixteenReps =
     map repAt [3000, 3100, 3200, 3300, 3400, 3500, 3600, 3700,
                3800, 3900, 4000, 4100, 4200, 4300, 4400, 4500]"

definition goodRep :: "int \<Rightarrow> repRecord" where
  "goodRep t = \<lparr>r_timestamp = t, duration = 100, formQuality = ''good''\<rparr>"

text \<open>The property of the rep history that every operation of the hook preserves.\<close>

definition repInvariant :: "session \<Rightarrow> bool" where
  "repInvariant st =
     (length (repHistory st) \<le> 10 \<and> (\<forall>r \<in> set (repHistory st). formQuality r = ''good''))"

text \<open>Reps 2000 ms apart, a prediction evaluation, a seventh rep.\<close>

definition slowReps :: "event list" where
  "slowReps = map repAt [3000, 5000, 7000, 9000, 11000, 13000]"

definition slowRep :: "int \<Rightarrow> repRecord" where
  "slowRep t = \<lparr>r_timestamp = t, duration = 2000, formQuality = ''good''\<rparr>"

definition fiveRepPrediction :: prediction where
  "fiveRepPrediction =
     \<lparr>fatigueLevel = ''low'', riskOfMistake = ''low'', suggestions = [encouragement 5]\<rparr>"

text \<open>
  A frame with only the left shoulder, at height \<open>v\<close>, and thirty such frames, 100 ms apart,
  whose heights alternate between \<open>100 - s\<close> and \<open>100 + s\<close>, with no exercise selected.
\<close>

definition shoulderFrame :: "real \<Rightarrow> keypoints" where
  "shoulderFrame v = [Some \<lparr>kp_name = ''left_shoulder'', kp_x = 300, kp_y = v, kp_score = 9 / 10\<rparr>]"

definition breathTimes :: "(int \<times> bool) list" where
  "breathTimes =
     [(1000, False), (1100, True), (1200, False), (1300, True), (1400, False), (1500, True),
      (1600, False), (1700, True), (1800, False), (1900, True), (2000, False), (2100, True),
      (2200, False), (2300, True), (2400, False), (2500, True), (2600, False), (2700, True),
      (2800, False), (2900, True), (3000, False), (3100, True), (3200, False), (3300, True),
      (3400, False), (3500, True), (3600, False), (3700, True), (3800, False), (3900, True)]"

definition breathHeight :: "real \<Rightarrow> bool \<Rightarrow> real" where
  "breathHeight s up = (if up then 100 + s else 100 - s)"

definition breathMoves :: "real \<Rightarrow> event list" where
  "breathMoves s = map (\<lambda>(t, up). TrackMovement (shoulderFrame (breathHeight s up)) t t t) breathTimes"

definition breathWave :: "real \<Rightarrow> breathingSample list" where
  "breathWave s = map (\<lambda>(t, up). \<lparr>b_timestamp = t, b_chestY = breathHeight s up\<rparr>) breathTimes"

definition idleStart :: session where
  "idleStart = initialSession None True"

section \<open>Keypoint selection\<close>

lemma startsWith_iff: "startsWith s p \<longleftrightarrow> (\<exists>q. s = p @ q)"
  by (induction s p rule: startsWith.induct) auto

lemma includes_str_iff: "includes_str s sub \<longleftrightarrow> (\<exists>p q. s = p @ sub @ q)"
proof (induction s)
  case Nil
  then show ?case by auto
next
  case (Cons c cs)
  show ?case
  proof
    assume "includes_str (c # cs) sub"
    then consider "startsWith (c # cs) sub" | "includes_str cs sub" by auto
    then show "\<exists>p q. c # cs = p @ sub @ q"
    proof cases
      case 1
      then obtain q where "c # cs = sub @ q" by (auto simp: startsWith_iff)
      then have "c # cs = [] @ sub @ q" by simp
      then show ?thesis by blast
    next
      case 2
      then obtain p q where "cs = p @ sub @ q" using Cons.IH by auto
      then have "c # cs = (c # p) @ sub @ q" by simp
      then show ?thesis by blast
    qed
  next
    assume "\<exists>p q. c # cs = p @ sub @ q"
    then obtain p q where pq: "c # cs = p @ sub @ q" by blast
    show "includes_str (c # cs) sub"
    proof (cases p)
      case Nil
      then have "startsWith (c # cs) sub" using pq by (auto simp: startsWith_iff)
      then show ?thesis by simp
    next
      case (Cons a p')
      then have "cs = p' @ sub @ q" using pq by simp
      then have "includes_str cs sub" using Cons.IH by blast
      then show ?thesis by simp
    qed
  qed
qed

lemma getKeypoint_find:
  "getKeypoint kps nm = Some k \<longleftrightarrow> List.find (kpMatches nm) kps = Some (Some k)"
proof -
  have "List.find (kpMatches nm) kps \<noteq> Some None"
    by (auto simp: find_Some_iff kpMatches_def)
  then show ?thesis
    by (auto simp: getKeypoint_def split: option.splits)
qed

text \<open>
  Claim C10, as the code has it. \<^verbatim>\<open>getKeypoint\<close> returns the first entry, in input order,
  that is usable for the canonical name; a \<^verbatim>\<open>null\<close> entry is never usable, and a point is
  usable exactly when its name is non-empty, its lower-cased name contains the lower-cased
  canonical name as a contiguous substring, and its score is strictly greater than 0.3.
\<close>

theorem getKeypoint_first_match:
  "(getKeypoint kps nm = Some k \<longleftrightarrow>
      (\<exists>i<length kps. kps ! i = Some k \<and> kpMatches nm (Some k) \<and>
          (\<forall>j<i. \<not> kpMatches nm (kps ! j)))) \<and>
   (kpMatches nm (Some k) \<longleftrightarrow>
      kp_name k \<noteq> [] \<and>
      (\<exists>p q. toLowerCase (kp_name k) = p @ toLowerCase nm @ q) \<and>
      kp_score k > 3 / 10) \<and>
   \<not> kpMatches nm None"
proof (intro conjI)
  show "getKeypoint kps nm = Some k \<longleftrightarrow>
      (\<exists>i<length kps. kps ! i = Some k \<and> kpMatches nm (Some k) \<and>
          (\<forall>j<i. \<not> kpMatches nm (kps ! j)))"
    unfolding getKeypoint_find find_Some_iff by metis
  show "kpMatches nm (Some k) \<longleftrightarrow>
      kp_name k \<noteq> [] \<and>
      (\<exists>p q. toLowerCase (kp_name k) = p @ toLowerCase nm @ q) \<and>
      kp_score k > 3 / 10"
    by (simp add: kpMatches_def includes_str_iff)
  show "\<not> kpMatches nm None"
    by (simp add: kpMatches_def)
qed

text \<open>
  In a frame with a \<^verbatim>\<open>null\<close> entry, a left hip of score exactly 0.3 and two later left hips
  of higher score, the first of the two later ones is selected, whatever the case of its name.
\<close>

theorem getKeypoint_first_match_witness:
  "getKeypoint [None,
     Some \<lparr>kp_name = ''left_hip'', kp_x = 1, kp_y = 10, kp_score = 3 / 10\<rparr>,
     Some \<lparr>kp_name = ''Left_Hip'', kp_x = 2, kp_y = 20, kp_score = 9 / 10\<rparr>,
     Some \<lparr>kp_name = ''left_hip'', kp_x = 3, kp_y = 30, kp_score = 8 / 10\<rparr>] ''left_hip''
   = Some \<lparr>kp_name = ''Left_Hip'', kp_x = 2, kp_y = 20, kp_score = 9 / 10\<rparr>"
proof -
  let ?k = "\<lparr>kp_name = ''Left_Hip'', kp_x = 2, kp_y = 20, kp_score = 9 / 10\<rparr>"
  let ?f = "[None,
     Some \<lparr>kp_name = ''left_hip'', kp_x = 1, kp_y = 10, kp_score = 3 / 10\<rparr>,
     Some ?k,
     Some \<lparr>kp_name = ''left_hip'', kp_x = 3, kp_y = 30, kp_score = 8 / 10\<rparr>]"
  have m: "kpMatches ''left_hip'' (Some ?k)"
    by (simp add: kpMatches_def toLowerCase_def toLowerChar_def char_of_def bit_Suc_0_iff)
  have n: "\<forall>j<2. \<not> kpMatches ''left_hip'' (?f ! j)"
    by (simp add: kpMatches_def less_Suc_eq numeral_2_eq_2)
  have "(2::nat) < length ?f \<and> ?f ! 2 = Some ?k \<and> kpMatches ''left_hip'' (Some ?k) \<and>
          (\<forall>j<2. \<not> kpMatches ''left_hip'' (?f ! j))"
    using m n by simp
  then have "\<exists>i<length ?f. ?f ! i = Some ?k \<and> kpMatches ''left_hip'' (Some ?k) \<and>
          (\<forall>j<i. \<not> kpMatches ''left_hip'' (?f ! j))"
    by blast
  then show ?thesis
    using getKeypoint_first_match [of ?f "''left_hip''" ?k] by blast
qed

text \<open>
  Against C10 as stated: a frame whose only point is a nose of score exactly 0.3 resolves no
  nose, so that point is not usable.
\<close>

theorem getKeypoint_threshold_counterexample:
  "getKeypoint [Some \<lparr>kp_name = ''nose'', kp_x = 120, kp_y = 80, kp_score = 3 / 10\<rparr>] ''nose'' = None"
  by (simp add: getKeypoint_def kpMatches_def)

section \<open>Evaluation at concrete frames\<close>

lemma getKeypoint_simps:
  "getKeypoint (Some k # ks) nm = (if kpMatches nm (Some k) then Some k else getKeypoint ks nm)"
  "getKeypoint (None # ks) nm = getKeypoint ks nm"
  "getKeypoint [] nm = None"
  by (simp_all add: getKeypoint_def kpMatches_def)

lemma toLowerCase_names:
  "toLowerCase ''left_hip'' = ''left_hip''"
  "toLowerCase ''right_hip'' = ''right_hip''"
  "toLowerCase ''left_knee'' = ''left_knee''"
  "toLowerCase ''right_knee'' = ''right_knee''"
  "toLowerCase ''left_ankle'' = ''left_ankle''"
  "toLowerCase ''right_ankle'' = ''right_ankle''"
  "toLowerCase ''left_shoulder'' = ''left_shoulder''"
  "toLowerCase ''right_shoulder'' = ''right_shoulder''"
  "toLowerCase ''left_elbow'' = ''left_elbow''"
  "toLowerCase ''right_elbow'' = ''right_elbow''"
  "toLowerCase ''left_wrist'' = ''left_wrist''"
  "toLowerCase ''right_wrist'' = ''right_wrist''"
  "toLowerCase ''nose'' = ''nose''"
  "toLowerCase ''shoulder'' = ''shoulder''"
  "toLowerCase ''elbow'' = ''elbow''"
  "toLowerCase ''wrist'' = ''wrist''"
  by (simp_all add: toLowerCase_def toLowerChar_def)

lemmas frame_eval = getKeypoint_simps kpMatches_def toLowerCase_names orElse_def

section \<open>Form classifiers\<close>

text \<open>
  Claim C8. When, after the prefer-left fall-back-to-right resolution, the hip, the knee or the
  ankle of a squat frame (the shoulder, the elbow or the wrist of a push-up frame) is
  unresolved, the classifier returns the empty feedback with \<open>isValid\<close> false and no angle:
  the result is the same for every angle function, so no angle enters it.
\<close>

theorem classifiers_missing_mandatory_joint:
  "(orElse (fk kps ''left_hip'') (fk kps ''right_hip'') = None \<or>
    orElse (fk kps ''left_knee'') (fk kps ''right_knee'') = None \<or>
    orElse (fk kps ''left_ankle'') (fk kps ''right_ankle'') = None
      \<longrightarrow> analyzeSquat fk ca kps = \<lparr>feedback = [], isValid = False, angles = []\<rparr>) \<and>
   (orElse (fk kps ''left_shoulder'') (fk kps ''right_shoulder'') = None \<or>
    orElse (fk kps ''left_elbow'') (fk kps ''right_elbow'') = None \<or>
    orElse (fk kps ''left_wrist'') (fk kps ''right_wrist'') = None
      \<longrightarrow> analyzePushUp fk ca kps = \<lparr>feedback = [], isValid = False, angles = []\<rparr>)"
  by (auto simp: analyzeSquat_def analyzePushUp_def noOpinion_def Let_def split: option.splits)

text \<open>
  A frame whose ankle is below the confidence threshold and which has no wrist: both
  classifiers give the "no opinion" result.
\<close>

theorem classifiers_missing_mandatory_joint_witness:
  "analyzeSquat getKeypoint angleBetween
     [Some \<lparr>kp_name = ''left_hip'', kp_x = 100, kp_y = 100, kp_score = 9 / 10\<rparr>,
      Some \<lparr>kp_name = ''right_knee'', kp_x = 100, kp_y = 200, kp_score = 9 / 10\<rparr>,
      Some \<lparr>kp_name = ''left_ankle'', kp_x = 200, kp_y = 200, kp_score = 2 / 10\<rparr>,
      Some \<lparr>kp_name = ''left_shoulder'', kp_x = 200, kp_y = 100, kp_score = 9 / 10\<rparr>,
      Some \<lparr>kp_name = ''left_elbow'', kp_x = 200, kp_y = 100, kp_score = 9 / 10\<rparr>]
     = \<lparr>feedback = [], isValid = False, angles = []\<rparr> \<and>
   analyzePushUp getKeypoint angleBetween
     [Some \<lparr>kp_name = ''left_hip'', kp_x = 100, kp_y = 100, kp_score = 9 / 10\<rparr>,
      Some \<lparr>kp_name = ''right_knee'', kp_x = 100, kp_y = 200, kp_score = 9 / 10\<rparr>,
      Some \<lparr>kp_name = ''left_ankle'', kp_x = 200, kp_y = 200, kp_score = 2 / 10\<rparr>,
      Some \<lparr>kp_name = ''left_shoulder'', kp_x = 200, kp_y = 100, kp_score = 9 / 10\<rparr>,
      Some \<lparr>kp_name = ''left_elbow'', kp_x = 200, kp_y = 100, kp_score = 9 / 10\<rparr>]
     = \<lparr>feedback = [], isValid = False, angles = []\<rparr>"
proof -
  let ?f = "[Some \<lparr>kp_name = ''left_hip'', kp_x = 100, kp_y = 100, kp_score = 9 / 10\<rparr>,
      Some \<lparr>kp_name = ''right_knee'', kp_x = 100, kp_y = 200, kp_score = 9 / 10\<rparr>,
      Some \<lparr>kp_name = ''left_ankle'', kp_x = 200, kp_y = 200, kp_score = 2 / 10\<rparr>,
      Some \<lparr>kp_name = ''left_shoulder'', kp_x = 200, kp_y = 100, kp_score = 9 / 10\<rparr>,
      Some \<lparr>kp_name = ''left_elbow'', kp_x = 200, kp_y = 100, kp_score = 9 / 10\<rparr>]"
  have a: "orElse (getKeypoint ?f ''left_ankle'') (getKeypoint ?f ''right_ankle'') = None"
    by (simp add: frame_eval)
  have w: "orElse (getKeypoint ?f ''left_wrist'') (getKeypoint ?f ''right_wrist'') = None"
    by (simp add: frame_eval)
  show ?thesis
    using classifiers_missing_mandatory_joint [of getKeypoint ?f angleBetween] a w by blast
qed

lemma check_monotone:
  "snd (backAlignmentCheck hipAngle fv) \<Longrightarrow> snd fv"
  "snd (kneeAlignmentCheck ratio fv) \<Longrightarrow> snd fv"
  by (auto simp: backAlignmentCheck_def kneeAlignmentCheck_def split: option.splits if_splits)

text \<open>
  Claim C7. For a squat frame with hip, knee and ankle resolved: when the knee-alignment check
  triggers (alignment ratio above 0.3), the result carries the knee-alignment message and is
  invalid, whether or not the back-alignment check (hip angle below 150) triggered before it;
  when only the back-alignment check triggers, the result carries its message and is invalid;
  and a valid result means that the depth classification was valid and no secondary check
  triggered, so no check turns an invalid result valid.
\<close>

theorem analyzeSquat_last_writer_wins:
  assumes "orElse (fk kps ''left_hip'') (fk kps ''right_hip'') = Some hip"
    and "orElse (fk kps ''left_knee'') (fk kps ''right_knee'') = Some knee"
    and "orElse (fk kps ''left_ankle'') (fk kps ''right_ankle'') = Some ankle"
  shows "(alignmentRatio hip knee ankle > 3 / 10 \<longrightarrow>
            feedback (analyzeSquat fk ca kps) = kneeAlignmentMessage \<and>
            \<not> isValid (analyzeSquat fk ca kps)) \<and>
         (\<forall>shoulder. orElse (fk kps ''left_shoulder'') (fk kps ''right_shoulder'') = Some shoulder \<and>
            ca shoulder hip knee < 150 \<and> \<not> alignmentRatio hip knee ankle > 3 / 10 \<longrightarrow>
            feedback (analyzeSquat fk ca kps) = backAlignmentMessage \<and>
            \<not> isValid (analyzeSquat fk ca kps)) \<and>
         (isValid (analyzeSquat fk ca kps) \<longrightarrow>
            snd (squatDepth (ca hip knee ankle)) \<and>
            \<not> alignmentRatio hip knee ankle > 3 / 10 \<and>
            (\<forall>shoulder. orElse (fk kps ''left_shoulder'') (fk kps ''right_shoulder'') = Some shoulder
               \<longrightarrow> \<not> ca shoulder hip knee < 150))"
  using assms
  by (auto simp: analyzeSquat_def Let_def kneeAlignmentCheck_def backAlignmentCheck_def
           split: option.splits if_splits)

text \<open>
  A frame with a right angle at the hip (back-alignment check triggers) and the ankle 100
  units beside the knee (alignment ratio 1): the feedback is the knee-alignment message.
\<close>

theorem analyzeSquat_last_writer_wins_witness:
  "feedback (analyzeSquat getKeypoint angleBetween
     [Some \<lparr>kp_name = ''left_hip'', kp_x = 100, kp_y = 100, kp_score = 9 / 10\<rparr>,
      Some \<lparr>kp_name = ''left_knee'', kp_x = 100, kp_y = 200, kp_score = 9 / 10\<rparr>,
      Some \<lparr>kp_name = ''left_ankle'', kp_x = 200, kp_y = 200, kp_score = 9 / 10\<rparr>,
      Some \<lparr>kp_name = ''left_shoulder'', kp_x = 200, kp_y = 100, kp_score = 9 / 10\<rparr>])
     = ''Keep your knees aligned with your toes, don't let them cave in'' \<and>
   \<not> isValid (analyzeSquat getKeypoint angleBetween
     [Some \<lparr>kp_name = ''left_hip'', kp_x = 100, kp_y = 100, kp_score = 9 / 10\<rparr>,
      Some \<lparr>kp_name = ''left_knee'', kp_x = 100, kp_y = 200, kp_score = 9 / 10\<rparr>,
      Some \<lparr>kp_name = ''left_ankle'', kp_x = 200, kp_y = 200, kp_score = 9 / 10\<rparr>,
      Some \<lparr>kp_name = ''left_shoulder'', kp_x = 200, kp_y = 100, kp_score = 9 / 10\<rparr>]) \<and>
   angleBetween \<lparr>kp_name = ''left_shoulder'', kp_x = 200, kp_y = 100, kp_score = 9 / 10\<rparr>
     \<lparr>kp_name = ''left_hip'', kp_x = 100, kp_y = 100, kp_score = 9 / 10\<rparr>
     \<lparr>kp_name = ''left_knee'', kp_x = 100, kp_y = 200, kp_score = 9 / 10\<rparr> < 150"
proof -
  let ?hip = "\<lparr>kp_name = ''left_hip'', kp_x = 100, kp_y = 100, kp_score = 9 / 10\<rparr>"
  let ?knee = "\<lparr>kp_name = ''left_knee'', kp_x = 100, kp_y = 200, kp_score = 9 / 10\<rparr>"
  let ?ankle = "\<lparr>kp_name = ''left_ankle'', kp_x = 200, kp_y = 200, kp_score = 9 / 10\<rparr>"
  let ?shoulder = "\<lparr>kp_name = ''left_shoulder'', kp_x = 200, kp_y = 100, kp_score = 9 / 10\<rparr>"
  let ?f = "[Some ?hip, Some ?knee, Some ?ankle, Some ?shoulder]"
  have h: "orElse (getKeypoint ?f ''left_hip'') (getKeypoint ?f ''right_hip'') = Some ?hip"
    by (simp add: frame_eval)
  have k: "orElse (getKeypoint ?f ''left_knee'') (getKeypoint ?f ''right_knee'') = Some ?knee"
    by (simp add: frame_eval)
  have a: "orElse (getKeypoint ?f ''left_ankle'') (getKeypoint ?f ''right_ankle'') = Some ?ankle"
    by (simp add: frame_eval)
  have sq: "sqrt 10000 = 100"
    using real_sqrt_abs [of 100] by simp
  have r: "alignmentRatio ?hip ?knee ?ankle > 3 / 10"
    by (simp add: alignmentRatio_def sq)
  have b: "angleBetween ?shoulder ?hip ?knee < 150"
    by (simp add: angleBetween_def)
  show ?thesis
    using analyzeSquat_last_writer_wins [where fk = getKeypoint and kps = ?f and ca = angleBetween, OF h k a] r b
    by (simp add: kneeAlignmentMessage_def)
qed


section \<open>The example squat session\<close>

lemma createDataPoint_squatFrame:
  "v \<noteq> 0 \<Longrightarrow> createDataPoint (squatFrame v) t = Some (squatSample t v)"
  by (simp add: createDataPoint_def squatFrame_def squatSample_def frame_eval Let_def
        chestPosition_def truthyY_def orZero_def)

lemma analyzeSquat_squatFrame:
  "analyzeSquat getKeypoint angleBetween (squatFrame v) = goodForm"
proof -
  have sq: "sqrt 10000 = 100"
    using real_sqrt_abs [of 100] by simp
  show ?thesis
    by (simp add: analyzeSquat_def squatFrame_def goodForm_def frame_eval Let_def
          angleBetween_def squatDepth_def backAlignmentCheck_def kneeAlignmentCheck_def
          alignmentRatio_def sq)
qed

lemma trackMovement_squatFrame:
  assumes "isActive st" and "exercise st = Some ''squat''" and "v \<noteq> 0"
  shows "trackMovement st (squatFrame v) t0 t1 t2 =
           st\<lparr>movementHistory :=
                 filter (\<lambda>point. timestamp point > t1 - 3000) (movementHistory st @ [squatSample t0 v]),
              breathingHistory :=
                 filter (\<lambda>point. b_timestamp point > t2 - 10000) (breathingHistory st)\<rparr>"
  using assms
  by (simp add: trackMovement_def createDataPoint_squatFrame Let_def truthyNum_def
        exerciseSelected_def HISTORY_WINDOW_def BREATHING_WINDOW_def squatSample_def)

lemma run_squatMoves:
  "run ca squatStart squatMoves = squatStart\<lparr>movementHistory := squatHistory\<rparr>"
  by (simp add: run_def squatMoves_def squatHistory_def step_def squatStart_def
        initialSession_def trackMovement_squatFrame squatSample_def)

section \<open>What every operation preserves\<close>

lemma recordRep_invariant:
  assumes "formValid fa" and "repInvariant st"
  shows "repInvariant (recordRep st fa now)"
proof -
  let ?r = "\<lparr>r_timestamp = now, duration = now - (case lastRepTime st of Some t \<Rightarrow> t | None \<Rightarrow> 0),
              formQuality = ''good''\<rparr>"
  let ?pushed = "repHistory st @ [?r]"
  have good: "\<forall>r \<in> set ?pushed. formQuality r = ''good''"
    using assms(2) by (auto simp: repInvariant_def)
  have "\<forall>r \<in> set (tl ?pushed). formQuality r = ''good''"
    using good by (metis list.set_sel(2) tl_Nil)
  moreover have "length (tl ?pushed) \<le> 10"
    using assms(2) by (simp add: repInvariant_def)
  ultimately show ?thesis
    using assms good by (auto simp: recordRep_def repInvariant_def Let_def)
qed

lemma trackRep_cases:
  "trackRep ca st kps fa now0 now1 = st \<or>
   (formValid fa \<and> trackRep ca st kps fa now0 now1 = recordRep st fa now1)"
  by (auto simp: trackRep_def Let_def squatRepCompleted_def pushUpRepCompleted_def
           split: option.splits)

lemma trackRep_invariant: "repInvariant st \<Longrightarrow> repInvariant (trackRep ca st kps fa now0 now1)"
  using trackRep_cases [of ca st kps fa now0 now1] recordRep_invariant [of fa st now1] by auto

lemma trackMovement_repHistory: "repHistory (trackMovement st kps now0 now1 now2) = repHistory st"
  by (simp add: trackMovement_def Let_def split: option.splits)

lemma getPredictions_repHistory: "repHistory (snd (getPredictions st now)) = repHistory st"
  by (simp add: getPredictions_def Let_def split: option.splits)

lemma analyzeBreathing_repHistory: "repHistory (analyzeBreathing st) = repHistory st"
  by (simp add: analyzeBreathing_def Let_def)

lemma breathingTick_repHistory: "repHistory (breathingTick st now) = repHistory st"
  by (simp add: breathingTick_def analyzeBreathing_repHistory)

lemma rerender_repHistory:
  "repHistory (rerender st ex act) = repHistory st \<or> repHistory (rerender st ex act) = []"
  by (simp add: rerender_def resetEffect_def Let_def)

lemma step_invariant: "repInvariant st \<Longrightarrow> repInvariant (step ca st ev)"
proof (cases ev)
  case (TrackMovement kps n0 n1 n2)
  assume "repInvariant st"
  then show ?thesis
    using TrackMovement by (simp add: step_def repInvariant_def trackMovement_repHistory)
next
  case (TrackRep kps fa n0 n1)
  assume "repInvariant st"
  then show ?thesis
    using TrackRep by (simp add: step_def trackRep_invariant)
next
  case (GetPredictions n)
  assume "repInvariant st"
  then show ?thesis
    using GetPredictions by (simp add: step_def repInvariant_def getPredictions_repHistory)
next
  case (BreathingTick n)
  assume "repInvariant st"
  then show ?thesis
    using BreathingTick by (simp add: step_def repInvariant_def breathingTick_repHistory)
next
  case (Rerender ex act)
  assume "repInvariant st"
  then show ?thesis
    using Rerender rerender_repHistory [of st ex act]
    by (auto simp: step_def repInvariant_def)
qed

lemma run_invariant: "repInvariant st \<Longrightarrow> repInvariant (run ca st evs)"
  by (induction evs arbitrary: st) (simp_all add: run_def step_invariant)

lemma initial_invariant: "repInvariant (initialSession ex act)"
  by (simp add: repInvariant_def initialSession_def)

lemma all_good_not_declining:
  assumes "\<forall>r \<in> set reps. formQuality r = ''good''"
  shows "\<not> formDecliningOf (sliceLast 5 reps)"
proof -
  let ?recent = "sliceLast 5 reps"
  have "\<forall>r \<in> set ?recent. formQuality r = ''good''"
    using assms by (auto simp: sliceLast_def dest: in_set_dropD)
  then have "filter (\<lambda>rep. formQuality rep = ''good'') ?recent = ?recent"
    by (simp add: filter_id_conv)
  then show ?thesis
    by (simp add: formDecliningOf_def Let_def)
qed

lemma classifyRisk_stype:
  "s \<in> set (suggestions (classifyRisk si fd hv k)) \<Longrightarrow> stype s = ''fatigue'' \<or> stype s = ''form''"
  by (cases si; cases fd; cases hv) (auto simp: classifyRisk_def pushSuggestion_def Let_def split: if_splits)

lemma classifyRisk_not_declining:
  "fatigueLevel (classifyRisk si False hv k) \<noteq> ''high'' \<and>
   riskOfMistake (classifyRisk si False hv k) = ''low''"
  by (simp add: classifyRisk_def pushSuggestion_def Let_def)

lemma analyzeAndPredict_not_declining:
  assumes "\<not> formDecliningOf (sliceLast 5 (repHistory st))"
    and "analyzeAndPredict st = Some p"
  shows "fatigueLevel p \<noteq> ''high'' \<and> riskOfMistake p = ''low''"
  using assms classifyRisk_not_declining
  by (auto simp: analyzeAndPredict_def Let_def pushSuggestion_def split: if_splits)

text \<open>
  Claim C3. In every session, whatever calls and renders it has gone through from the initial
  state, every record of the rep history has quality \<open>good\<close>; hence the fraction of good
  reps among the last five is 1 whenever there is a rep, the form-declining condition is
  false, and a prediction never has fatigue level \<open>high\<close> nor a risk of mistake other than
  \<open>low\<close>.
\<close>

theorem repHistory_all_good:
  "(\<forall>r \<in> set (repHistory (run ca (initialSession ex act) evs)). formQuality r = ''good'') \<and>
   (repHistory (run ca (initialSession ex act) evs) \<noteq> [] \<longrightarrow>
      real (length (filter (\<lambda>rep. formQuality rep = ''good'')
                      (sliceLast 5 (repHistory (run ca (initialSession ex act) evs)))))
        / real (length (sliceLast 5 (repHistory (run ca (initialSession ex act) evs)))) = 1) \<and>
   \<not> formDecliningOf (sliceLast 5 (repHistory (run ca (initialSession ex act) evs))) \<and>
   (\<forall>p. analyzeAndPredict (run ca (initialSession ex act) evs) = Some p \<longrightarrow>
        fatigueLevel p \<noteq> ''high'' \<and> riskOfMistake p = ''low'')"
proof -
  let ?st = "run ca (initialSession ex act) evs"
  let ?recent = "sliceLast 5 (repHistory ?st)"
  have inv: "repInvariant ?st"
    by (rule run_invariant [OF initial_invariant])
  then have good: "\<forall>r \<in> set (repHistory ?st). formQuality r = ''good''"
    by (simp add: repInvariant_def)
  then have nd: "\<not> formDecliningOf ?recent"
    by (rule all_good_not_declining)
  have "\<forall>r \<in> set ?recent. formQuality r = ''good''"
    using good by (auto simp: sliceLast_def dest: in_set_dropD)
  then have all: "filter (\<lambda>rep. formQuality rep = ''good'') ?recent = ?recent"
    by (simp add: filter_id_conv)
  have "repHistory ?st \<noteq> [] \<longrightarrow> 0 < length ?recent"
    by (simp add: sliceLast_def)
  then have one: "repHistory ?st \<noteq> [] \<longrightarrow>
      real (length (filter (\<lambda>rep. formQuality rep = ''good'') ?recent)) / real (length ?recent) = 1"
    unfolding all by simp
  show ?thesis
    using good one nd analyzeAndPredict_not_declining [OF nd] by blast
qed

lemma run_append: "run ca st (evs @ evs') = run ca (run ca st evs) evs'"
  by (simp add: run_def)

lemma length_squatHistory: "length squatHistory = 20"
  by (simp add: squatHistory_def)

lemma lowest_squatHistory: "reduce1 lowerCenter squatHistory = Some (squatSample 2500 300)"
  by (simp add: squatHistory_def lowerCenter_def squatSample_def)

lemma completed_squatHistory:
  "squatRepCompleted squatHistory (squatSample 2500 300) (squatSample t 200) (Some goodForm)"
  by (simp add: squatRepCompleted_def squatHistory_def sliceLast_def squatSample_def
        formValid_def goodForm_def)

lemma variance_squatHistory: "varianceOf (map centerY (sliceLast 30 squatHistory)) = 1875"
  by (simp add: varianceOf_def squatHistory_def sliceLast_def squatSample_def)

lemma trackRep_squatHistory:
  assumes "isActive st" and "exercise st = Some ''squat''" and "movementHistory st = squatHistory"
  shows "trackRep ca st (squatFrame 200) (Some goodForm) t0 t1 = recordRep st (Some goodForm) t1"
  using assms
  by (simp add: trackRep_def createDataPoint_squatFrame exerciseSelected_def
        length_squatHistory lowest_squatHistory completed_squatHistory)

lemma step_repAt:
  assumes "isActive st" and "exercise st = Some ''squat''" and "movementHistory st = squatHistory"
  shows "step ca st (repAt t) = recordRep st (Some goodForm) t"
  using assms by (simp add: step_def repAt_def analyzeSquat_squatFrame trackRep_squatHistory)

lemma recordRep_first:
  "lastRepTime st = None \<Longrightarrow> recordRep st fa now = st\<lparr>lastRepTime := Some now\<rparr>"
  by (simp add: recordRep_def truthyTime_def)

lemma recordRep_next:
  "lastRepTime st = Some t \<Longrightarrow> t \<noteq> 0 \<Longrightarrow>
   recordRep st (Some goodForm) now =
     st\<lparr>repHistory :=
          (if length (repHistory st) \<ge> 10
           then tl (repHistory st @ [\<lparr>r_timestamp = now, duration = now - t, formQuality = ''good''\<rparr>])
           else repHistory st @ [\<lparr>r_timestamp = now, duration = now - t, formQuality = ''good''\<rparr>]),
        lastRepTime := Some now\<rparr>"
  by (simp add: recordRep_def truthyTime_def formValid_def goodForm_def Let_def)

lemma run_fiveReps:
  "run ca squatStart (squatMoves @ fiveReps) =
     squatStart\<lparr>movementHistory := squatHistory,
                repHistory := map goodRep [3100, 3200, 3300, 3400],
                lastRepTime := Some 3400\<rparr>"
  by (simp add: run_append run_squatMoves)
     (simp add: run_def fiveReps_def step_repAt recordRep_first recordRep_next goodRep_def
        squatStart_def initialSession_def)

lemma run_sixReps:
  "run ca squatStart (squatMoves @ sixReps) =
     squatStart\<lparr>movementHistory := squatHistory,
                repHistory := map goodRep [3100, 3200, 3300, 3400, 3500],
                lastRepTime := Some 3500\<rparr>"
  by (simp add: run_append run_squatMoves)
     (simp add: run_def sixReps_def step_repAt recordRep_first recordRep_next goodRep_def
        squatStart_def initialSession_def)

lemma run_sixteenReps:
  "run ca squatStart (squatMoves @ sixteenReps) =
     squatStart\<lparr>movementHistory := squatHistory,
                repHistory := map goodRep [3600, 3700, 3800, 3900, 4000, 4100, 4200, 4300, 4400, 4500],
                lastRepTime := Some 4500\<rparr>"
  by (simp add: run_append run_squatMoves)
     (simp add: run_def sixteenReps_def step_repAt recordRep_first recordRep_next goodRep_def
        squatStart_def initialSession_def)

lemmas predict_eval = analyzeAndPredict_def analysisRuns_def exerciseSelected_def
  MIN_REPS_FOR_ANALYSIS_def length_squatHistory variance_squatHistory speedIncreaseOf_def
  formDecliningOf_def classifyRisk_def averageDuration_def sliceLast_def pushSuggestion_def goodRep_def
  squatStart_def initialSession_def Let_def

lemma predict_fiveReps: "analyzeAndPredict (run ca squatStart (squatMoves @ fiveReps)) = None"
  by (simp add: run_fiveReps) (simp add: predict_eval)

lemma predict_sixReps:
  "analyzeAndPredict (run ca squatStart (squatMoves @ sixReps)) =
     Some \<lparr>fatigueLevel = ''low'', riskOfMistake = ''low'', suggestions = [encouragement 5]\<rparr>"
proof -
  have n: "Suc (Suc (Suc (Suc (Suc 0)))) = 5"
    by simp
  show ?thesis
    by (simp add: run_sixReps) (simp add: predict_eval n)
qed

lemma predict_sixteenReps:
  "analyzeAndPredict (run ca squatStart (squatMoves @ sixteenReps)) =
     Some \<lparr>fatigueLevel = ''low'', riskOfMistake = ''low'', suggestions = [encouragement 10]\<rparr>"
proof -
  have n: "Suc (Suc (Suc (Suc (Suc (Suc (Suc (Suc (Suc (Suc 0))))))))) = 10"
    by simp
  show ?thesis
    by (simp add: run_sixteenReps) (simp add: predict_eval n)
qed

lemma encouragement_5_10:
  "encouragement 5 = \<lparr>stype = ''encouragement'',
      message = ''Great work! You've completed 5 reps. Keep it up!'', priority = ''low''\<rparr>"
  "encouragement 10 = \<lparr>stype = ''encouragement'',
      message = ''Great work! You've completed 10 reps. Keep it up!'', priority = ''low''\<rparr>"
  by (simp_all add: encouragement_def showNat.simps)

section \<open>Recording a completed rep\<close>

text \<open>
  What \<^verbatim>\<open>trackRep\<close> does on a completed rep. When it passes its guards and the
  rep-completion condition of the selected exercise holds (which includes a valid form
  result), the last rep timestamp becomes the current time; if a previous, non-zero rep
  timestamp exists, a record with the time since then and quality \<open>good\<close> is appended and
  the oldest record is dropped when that makes more than ten; without a previous timestamp
  the rep history is left as it was.
\<close>

lemma trackRep_rep_completed:
  assumes "isActive st"
    and "createDataPoint kps now0 = Some dp"
    and "10 \<le> length (movementHistory st)"
    and "(exercise st = Some ''squat'' \<and>
            (\<exists>low. reduce1 lowerCenter (movementHistory st) = Some low \<and>
                   squatRepCompleted (movementHistory st) low dp fa)) \<or>
         (exercise st = Some ''push-up'' \<and> truthyNum (shoulderY dp) \<and>
            (\<exists>low shoulder elbow wrist.
                reduce1 lowerShoulder (movementHistory st) = Some low \<and>
                truthyNum (shoulderY low) \<and>
                getKeypoint kps ''shoulder'' = Some shoulder \<and>
                getKeypoint kps ''elbow'' = Some elbow \<and>
                getKeypoint kps ''wrist'' = Some wrist \<and>
                pushUpRepCompleted (movementHistory st) low dp (ca shoulder elbow wrist) fa))"
  shows "lastRepTime (trackRep ca st kps fa now0 now1) = Some now1 \<and>
         (\<forall>t. lastRepTime st = Some t \<and> t \<noteq> 0 \<longrightarrow>
            repHistory (trackRep ca st kps fa now0 now1) =
              (let pushed = repHistory st @
                     [\<lparr>r_timestamp = now1, duration = now1 - t, formQuality = ''good''\<rparr>]
               in if length pushed > 10 then tl pushed else pushed)) \<and>
         (lastRepTime st = None \<or> lastRepTime st = Some 0 \<longrightarrow>
            repHistory (trackRep ca st kps fa now0 now1) = repHistory st)"
proof -
  have valid: "formValid fa"
    using assms(4) by (auto simp: squatRepCompleted_def pushUpRepCompleted_def Let_def)
  have eq: "trackRep ca st kps fa now0 now1 = recordRep st fa now1"
    using assms by (auto simp: trackRep_def exerciseSelected_def Let_def)
  show ?thesis
    unfolding eq using valid by (auto simp: recordRep_def truthyTime_def Let_def)
qed

text \<open>
  After the twenty example frames and a first detected rep at time 3000, the rep detected at
  time 3100 is recorded with duration 100.
\<close>

lemma trackRep_rep_completed_example:
  "repHistory (trackRep angleBetween
       (run angleBetween squatStart (squatMoves @ [repAt 3000]))
       (squatFrame 200) (Some goodForm) 3100 3100)
     = [\<lparr>r_timestamp = 3100, duration = 100, formQuality = ''good''\<rparr>] \<and>
   lastRepTime (trackRep angleBetween
       (run angleBetween squatStart (squatMoves @ [repAt 3000]))
       (squatFrame 200) (Some goodForm) 3100 3100) = Some 3100"
proof -
  let ?st = "run angleBetween squatStart (squatMoves @ [repAt 3000])"
  have st: "?st = squatStart\<lparr>movementHistory := squatHistory, lastRepTime := Some 3000\<rparr>"
    by (simp add: run_append run_squatMoves)
       (simp add: run_def step_repAt recordRep_first squatStart_def initialSession_def)
  have a: "isActive ?st" and e: "exercise ?st = Some ''squat''"
    and h: "movementHistory ?st = squatHistory"
    and l: "lastRepTime ?st = Some 3000" and r: "repHistory ?st = []"
    unfolding st by (simp_all add: squatStart_def initialSession_def)
  have d: "createDataPoint (squatFrame 200) 3100 = Some (squatSample 3100 200)"
    by (simp add: createDataPoint_squatFrame)
  have n: "10 \<le> length (movementHistory ?st)"
    by (simp add: h length_squatHistory)
  have c: "(exercise ?st = Some ''squat'' \<and>
            (\<exists>low. reduce1 lowerCenter (movementHistory ?st) = Some low \<and>
                   squatRepCompleted (movementHistory ?st) low (squatSample 3100 200) (Some goodForm))) \<or>
         (exercise ?st = Some ''push-up'' \<and> truthyNum (shoulderY (squatSample 3100 200)) \<and>
            (\<exists>low shoulder elbow wrist.
                reduce1 lowerShoulder (movementHistory ?st) = Some low \<and>
                truthyNum (shoulderY low) \<and>
                getKeypoint (squatFrame 200) ''shoulder'' = Some shoulder \<and>
                getKeypoint (squatFrame 200) ''elbow'' = Some elbow \<and>
                getKeypoint (squatFrame 200) ''wrist'' = Some wrist \<and>
                pushUpRepCompleted (movementHistory ?st) low (squatSample 3100 200)
                  (angleBetween shoulder elbow wrist) (Some goodForm)))"
    using e h lowest_squatHistory completed_squatHistory [of 3100] by simp
  show ?thesis
    using trackRep_rep_completed [OF a d n c, of 3100] l r by simp
qed

text \<open>
  Claim C1 at its failing input. After the twenty example frames the completion condition
  holds for the frame back up at height 200 with a valid form result. This first detected rep
  sets the last rep timestamp but appends no record, so the rep history, whose length is the
  exposed rep count, is still empty; after five detected reps it holds four records.
\<close>

theorem trackRep_first_rep_unrecorded:
  "squatRepCompleted (movementHistory (run angleBetween squatStart squatMoves))
     (squatSample 2500 300) (squatSample 3000 200) (Some goodForm) \<and>
   repHistory (run angleBetween squatStart (squatMoves @ [repAt 3000])) = [] \<and>
   lastRepTime (run angleBetween squatStart (squatMoves @ [repAt 3000])) = Some 3000 \<and>
   repHistory (run angleBetween squatStart (squatMoves @ fiveReps))
     = map goodRep [3100, 3200, 3300, 3400]"
proof -
  have t: "run angleBetween squatStart (squatMoves @ [repAt 3000])
        = squatStart\<lparr>movementHistory := squatHistory, lastRepTime := Some 3000\<rparr>"
    by (simp add: run_append run_squatMoves)
       (simp add: run_def step_repAt recordRep_first squatStart_def initialSession_def)
  show ?thesis
    unfolding run_squatMoves t run_fiveReps
    by (simp add: completed_squatHistory squatStart_def initialSession_def)
qed

section \<open>Form quality of recorded reps\<close>

text \<open>
  The example session with six detected reps: five records, all \<open>good\<close>, the form is not
  declining, and the prediction has both levels \<open>low\<close>.
\<close>

theorem repHistory_all_good_witness:
  "repHistory (run angleBetween squatStart (squatMoves @ sixReps))
     = map goodRep [3100, 3200, 3300, 3400, 3500] \<and>
   \<not> formDecliningOf (sliceLast 5 (repHistory (run angleBetween squatStart (squatMoves @ sixReps)))) \<and>
   analyzeAndPredict (run angleBetween squatStart (squatMoves @ sixReps)) =
     Some \<lparr>fatigueLevel = ''low'', riskOfMistake = ''low'', suggestions = [encouragement 5]\<rparr>"
proof -
  have "repHistory (run angleBetween squatStart (squatMoves @ sixReps))
          = map goodRep [3100, 3200, 3300, 3400, 3500]"
    by (simp add: run_sixReps)
  then show ?thesis
    using repHistory_all_good [of angleBetween "Some ''squat''" True "squatMoves @ sixReps"]
      predict_sixReps [of angleBetween]
    unfolding squatStart_def by blast
qed

section \<open>Milestone encouragement\<close>

lemma run_repHistory_le_10: "length (repHistory (run ca (initialSession ex act) evs)) \<le> 10"
  using run_invariant [OF initial_invariant, of ca ex act evs] by (simp add: repInvariant_def)

lemma encouragement_iff:
  "(\<exists>p. analyzeAndPredict st = Some p \<and> (\<exists>s \<in> set (suggestions p). stype s = ''encouragement''))
     \<longleftrightarrow> analysisRuns st \<and> 0 < length (repHistory st) \<and> length (repHistory st) mod 5 = 0"
proof (cases "analysisRuns st")
  case False
  then show ?thesis
    by (simp add: analyzeAndPredict_def)
next
  case True
  define p4 where "p4 = classifyRisk (speedIncreaseOf (sliceLast 5 (repHistory st)))
      (formDecliningOf (sliceLast 5 (repHistory st)))
      (varianceOf (map centerY (sliceLast 30 (movementHistory st))) > 1000)
      (length (sliceLast 5 (repHistory st)))"
  have no: "\<forall>s \<in> set (suggestions p4). stype s \<noteq> ''encouragement''"
    using classifyRisk_stype unfolding p4_def by fastforce
  show ?thesis
  proof (cases "0 < length (repHistory st) \<and> length (repHistory st) mod 5 = 0")
    case True
    then have "analyzeAndPredict st =
        Some (pushSuggestion (encouragement (length (repHistory st))) p4)"
      using \<open>analysisRuns st\<close> by (simp add: analyzeAndPredict_def Let_def p4_def pushSuggestion_def)
    then show ?thesis
      using True \<open>analysisRuns st\<close> by (simp add: pushSuggestion_def encouragement_def)
  next
    case False
    then have "analyzeAndPredict st = (if length (suggestions p4) > 0 then Some p4 else None)"
      using \<open>analysisRuns st\<close> by (auto simp: analyzeAndPredict_def Let_def p4_def)
    then show ?thesis
      using False no by (auto split: if_splits)
  qed
qed

lemma encouragement_only:
  assumes "analyzeAndPredict st = Some p" and "s \<in> set (suggestions p)"
    and "stype s = ''encouragement''"
  shows "s = encouragement (length (repHistory st))"
proof -
  have "\<not> (stype s = ''fatigue'' \<or> stype s = ''form'')"
    using assms(3) by simp
  then have "\<And>si fd hv k. s \<notin> set (suggestions (classifyRisk si fd hv k))"
    using classifyRisk_stype by blast
  then show ?thesis
    using assms(1,2)
    by (auto simp: analyzeAndPredict_def Let_def pushSuggestion_def split: if_splits)
qed

text \<open>
  What the milestone rule of \<^verbatim>\<open>analyzeAndPredict\<close> computes. In every session reached from
  the initial state, a prediction evaluation yields a suggestion of type \<open>encouragement\<close>
  exactly when the session is active, an exercise is selected, at least 20 motion samples are
  buffered, and the rep history holds exactly 5 or exactly 10 records (it never holds more
  than 10); any such suggestion is the low-priority encouragement whose message carries the
  length of the rep history.
\<close>

lemma analyzeAndPredict_encouragement:
  "((\<exists>p. analyzeAndPredict (run ca (initialSession ex act) evs) = Some p \<and>
         (\<exists>s \<in> set (suggestions p). stype s = ''encouragement''))
      \<longleftrightarrow> isActive (run ca (initialSession ex act) evs) \<and>
          exerciseSelected (exercise (run ca (initialSession ex act) evs)) \<and>
          20 \<le> length (movementHistory (run ca (initialSession ex act) evs)) \<and>
          (length (repHistory (run ca (initialSession ex act) evs)) = 5 \<or>
           length (repHistory (run ca (initialSession ex act) evs)) = 10)) \<and>
   (\<forall>p s. analyzeAndPredict (run ca (initialSession ex act) evs) = Some p \<and>
          s \<in> set (suggestions p) \<and> stype s = ''encouragement'' \<longrightarrow>
          s = encouragement (length (repHistory (run ca (initialSession ex act) evs))) \<and>
          priority s = ''low'')"
proof (rule conjI)
  define st where "st = run ca (initialSession ex act) evs"
  define n where "n = length (repHistory st)"
  define found where "found \<longleftrightarrow>
    (\<exists>p. analyzeAndPredict st = Some p \<and> (\<exists>s \<in> set (suggestions p). stype s = ''encouragement''))"
  have le: "n \<le> 10"
    unfolding n_def st_def by (rule run_repHistory_le_10)
  have m: "(0 < n \<and> n mod 5 = 0) \<longleftrightarrow> (n = 5 \<or> n = 10)"
    using le by presburger
  have iff: "found \<longleftrightarrow> analysisRuns st \<and> 0 < n \<and> n mod 5 = 0"
    unfolding found_def n_def by (rule encouragement_iff)
  have gates: "analysisRuns st \<longleftrightarrow>
      isActive st \<and> exerciseSelected (exercise st) \<and> 20 \<le> length (movementHistory st) \<and> 3 \<le> n"
    unfolding n_def by (auto simp: analysisRuns_def MIN_REPS_FOR_ANALYSIS_def)
  have "found \<longleftrightarrow>
      isActive st \<and> exerciseSelected (exercise st) \<and> 20 \<le> length (movementHistory st) \<and>
      (n = 5 \<or> n = 10)"
    unfolding iff gates m by auto
  then show "(\<exists>p. analyzeAndPredict (run ca (initialSession ex act) evs) = Some p \<and>
         (\<exists>s \<in> set (suggestions p). stype s = ''encouragement''))
      \<longleftrightarrow> isActive (run ca (initialSession ex act) evs) \<and>
          exerciseSelected (exercise (run ca (initialSession ex act) evs)) \<and>
          20 \<le> length (movementHistory (run ca (initialSession ex act) evs)) \<and>
          (length (repHistory (run ca (initialSession ex act) evs)) = 5 \<or>
           length (repHistory (run ca (initialSession ex act) evs)) = 10)"
    unfolding found_def n_def st_def .
next
  show "\<forall>p s. analyzeAndPredict (run ca (initialSession ex act) evs) = Some p \<and>
          s \<in> set (suggestions p) \<and> stype s = ''encouragement'' \<longrightarrow>
          s = encouragement (length (repHistory (run ca (initialSession ex act) evs))) \<and>
          priority s = ''low''"
  proof (intro allI impI)
    fix p s
    assume a: "analyzeAndPredict (run ca (initialSession ex act) evs) = Some p \<and>
          s \<in> set (suggestions p) \<and> stype s = ''encouragement''"
    then have e: "s = encouragement (length (repHistory (run ca (initialSession ex act) evs)))"
      using encouragement_only by blast
    have "priority (encouragement (length (repHistory (run ca (initialSession ex act) evs)))) = ''low''"
      by (simp add: encouragement_def)
    then show "s = encouragement (length (repHistory (run ca (initialSession ex act) evs))) \<and>
          priority s = ''low''"
      using e by simp
  qed
qed

text \<open>
  The example session with sixteen detected reps holds ten records and is encouraged.
\<close>

lemma analyzeAndPredict_encouragement_example:
  "\<exists>p. analyzeAndPredict (run angleBetween squatStart (squatMoves @ sixteenReps)) = Some p \<and>
       (\<exists>s \<in> set (suggestions p). stype s = ''encouragement'')"
proof -
  let ?st = "run angleBetween (initialSession (Some ''squat'') True) (squatMoves @ sixteenReps)"
  have st: "?st = squatStart\<lparr>movementHistory := squatHistory,
                repHistory := map goodRep [3600, 3700, 3800, 3900, 4000, 4100, 4200, 4300, 4400, 4500],
                lastRepTime := Some 4500\<rparr>"
    using run_sixteenReps [of angleBetween] by (simp add: squatStart_def)
  have "isActive ?st \<and> exerciseSelected (exercise ?st) \<and> 20 \<le> length (movementHistory ?st) \<and>
          (length (repHistory ?st) = 5 \<or> length (repHistory ?st) = 10)"
    unfolding st
    by (simp add: squatStart_def initialSession_def exerciseSelected_def length_squatHistory)
  then show ?thesis
    using analyzeAndPredict_encouragement [of angleBetween "Some ''squat''" True "squatMoves @ sixteenReps"]
    unfolding squatStart_def by blast
qed

text \<open>
  Claim C4 at its failing input. In the example session the evaluation after the fifth
  detected rep yields no encouragement, the one after the sixth detected rep yields the
  encouragement for 5 reps, and the one after the sixteenth detected rep reads 10 reps: the
  interpolated number is the length of the rep history, not the number of completed reps.
\<close>

theorem analyzeAndPredict_encouragement_miscount:
  "analyzeAndPredict (run angleBetween squatStart (squatMoves @ fiveReps)) = None \<and>
   analyzeAndPredict (run angleBetween squatStart (squatMoves @ sixReps)) =
     Some \<lparr>fatigueLevel = ''low'', riskOfMistake = ''low'',
           suggestions = [\<lparr>stype = ''encouragement'',
                           message = ''Great work! You've completed 5 reps. Keep it up!'',
                           priority = ''low''\<rparr>]\<rparr> \<and>
   analyzeAndPredict (run angleBetween squatStart (squatMoves @ sixteenReps)) =
     Some \<lparr>fatigueLevel = ''low'', riskOfMistake = ''low'',
           suggestions = [\<lparr>stype = ''encouragement'',
                           message = ''Great work! You've completed 10 reps. Keep it up!'',
                           priority = ''low''\<rparr>]\<rparr>"
  by (simp add: predict_fiveReps predict_sixReps predict_sixteenReps encouragement_5_10)

section \<open>Breathing samples\<close>

lemma createDataPoint_shoulderFrame:
  "createDataPoint (shoulderFrame v) t =
     Some \<lparr>timestamp = t, hipY = None, kneeY = None, shoulderY = truthyY (getKeypoint (shoulderFrame v) ''left_shoulder''),
           chestY = Some v, centerY = v, hasFullBody = False\<rparr>"
  by (simp add: createDataPoint_def shoulderFrame_def frame_eval Let_def
        chestPosition_def truthyY_def orZero_def)

lemma trackMovement_shoulderFrame:
  assumes "isActive st" and "exercise st = None" and "v \<noteq> 0"
  shows "trackMovement st (shoulderFrame v) t0 t1 t2 =
           st\<lparr>breathingHistory :=
                 filter (\<lambda>point. b_timestamp point > t2 - 10000)
                   (breathingHistory st @ [\<lparr>b_timestamp = t0, b_chestY = v\<rparr>])\<rparr>"
  using assms
  by (simp add: trackMovement_def createDataPoint_shoulderFrame Let_def truthyNum_def
        exerciseSelected_def BREATHING_WINDOW_def orZero_def)

lemma run_breathMoves:
  assumes "s \<noteq> 100" and "s \<noteq> - 100"
  shows "run ca idleStart (breathMoves s) = idleStart\<lparr>breathingHistory := breathWave s\<rparr>"
  using assms
  by (simp add: run_def breathMoves_def breathWave_def breathTimes_def breathHeight_def step_def
        idleStart_def initialSession_def trackMovement_shoulderFrame)

lemma variance_breathWave: "varianceOf (map b_chestY (breathWave s)) = s ^ 2"
  by (simp add: varianceOf_def breathWave_def breathTimes_def breathHeight_def power2_eq_square)

lemma stdDev_breathWave: "0 \<le> s \<Longrightarrow> sqrt (varianceOf (map b_chestY (breathWave s))) = s"
  by (simp add: variance_breathWave)

lemma length_breathWave: "length (breathWave s) = 30"
  by (simp add: breathWave_def breathTimes_def)

lemma analyzeBreathing_confidence:
  "signalConfidence (analyzeBreathing st) =
     (if length (breathingHistory st) < 30 then LOW
      else confidenceOf (sqrt (varianceOf (map b_chestY (breathingHistory st)))))"
  by (simp add: analyzeBreathing_def Let_def)

text \<open>
  Claim C6, as the code has it. With at least 30 buffered chest samples, the signal confidence
  after a breathing analysis is \<open>low\<close> for a standard deviation below 5 or above 50,
  \<open>medium\<close> for one above 20 and at most 50, and \<open>high\<close> for one from 5 to 20, both ends
  included.
\<close>

theorem analyzeBreathing_confidence_bands:
  assumes "30 \<le> length (breathingHistory st)"
  shows "(sqrt (varianceOf (map b_chestY (breathingHistory st))) < 5 \<or>
          sqrt (varianceOf (map b_chestY (breathingHistory st))) > 50
            \<longrightarrow> signalConfidence (analyzeBreathing st) = LOW) \<and>
         (20 < sqrt (varianceOf (map b_chestY (breathingHistory st))) \<and>
          sqrt (varianceOf (map b_chestY (breathingHistory st))) \<le> 50
            \<longrightarrow> signalConfidence (analyzeBreathing st) = MEDIUM) \<and>
         (5 \<le> sqrt (varianceOf (map b_chestY (breathingHistory st))) \<and>
          sqrt (varianceOf (map b_chestY (breathingHistory st))) \<le> 20
            \<longrightarrow> signalConfidence (analyzeBreathing st) = HIGH)"
  using assms by (simp add: analyzeBreathing_confidence confidenceOf_def)

text \<open>
  Thirty tracked shoulder frames alternating around height 100 with standard deviation 4, 6,
  25 and 60 are classified \<open>low\<close>, \<open>high\<close>, \<open>medium\<close> and \<open>low\<close>.
\<close>

theorem analyzeBreathing_confidence_bands_witness:
  "signalConfidence (analyzeBreathing (run angleBetween idleStart (breathMoves 4))) = LOW \<and>
   signalConfidence (analyzeBreathing (run angleBetween idleStart (breathMoves 6))) = HIGH \<and>
   signalConfidence (analyzeBreathing (run angleBetween idleStart (breathMoves 25))) = MEDIUM \<and>
   signalConfidence (analyzeBreathing (run angleBetween idleStart (breathMoves 60))) = LOW"
proof -
  have h: "\<And>s. s \<noteq> 100 \<Longrightarrow> s \<noteq> - 100 \<Longrightarrow> 0 \<le> s \<Longrightarrow>
      breathingHistory (run angleBetween idleStart (breathMoves s)) = breathWave s"
    by (simp add: run_breathMoves)
  have n: "\<And>s. s \<noteq> 100 \<Longrightarrow> s \<noteq> - 100 \<Longrightarrow> 0 \<le> s \<Longrightarrow>
      30 \<le> length (breathingHistory (run angleBetween idleStart (breathMoves s)))"
    by (simp add: h length_breathWave)
  have d: "\<And>s. s \<noteq> 100 \<Longrightarrow> s \<noteq> - 100 \<Longrightarrow> 0 \<le> s \<Longrightarrow>
      sqrt (varianceOf (map b_chestY (breathingHistory (run angleBetween idleStart (breathMoves s))))) = s"
    by (simp add: h stdDev_breathWave)
  show ?thesis
    using analyzeBreathing_confidence_bands [OF n [of 4]]
      analyzeBreathing_confidence_bands [OF n [of 6]]
      analyzeBreathing_confidence_bands [OF n [of 25]]
      analyzeBreathing_confidence_bands [OF n [of 60]]
    by (simp add: d)
qed

text \<open>
  Against C6 as stated: thirty samples of standard deviation exactly 20 are classified
  \<open>high\<close>, not \<open>medium\<close>.
\<close>

theorem analyzeBreathing_stdDev_20_counterexample:
  "length (breathingHistory (run angleBetween idleStart (breathMoves 20))) = 30 \<and>
   sqrt (varianceOf (map b_chestY (breathingHistory (run angleBetween idleStart (breathMoves 20))))) = 20 \<and>
   signalConfidence (analyzeBreathing (run angleBetween idleStart (breathMoves 20))) = HIGH"
  by (simp add: run_breathMoves analyzeBreathing_confidence length_breathWave stdDev_breathWave
        confidenceOf_def)

section \<open>Chest estimates and the breathing window\<close>

lemma createDataPoint_timestamp: "createDataPoint kps t = Some dp \<Longrightarrow> timestamp dp = t"
  by (auto simp: createDataPoint_def Let_def split: if_splits)

lemma trackMovement_appends_nonzero_chest:
  assumes "isActive st" and "createDataPoint kps now0 = Some dp" and "chestY dp = Some c"
    and "c \<noteq> 0" and "now2 - BREATHING_WINDOW < now0"
  shows "breathingHistory (trackMovement st kps now0 now1 now2) =
           filter (\<lambda>point. b_timestamp point > now2 - BREATHING_WINDOW) (breathingHistory st)
             @ [\<lparr>b_timestamp = now0, b_chestY = c\<rparr>]"
  using assms createDataPoint_timestamp [OF assms(2)]
  by (simp add: trackMovement_def Let_def truthyNum_def orZero_def)

text \<open>
  Claim C9 at its failing input. A frame whose only point is a left shoulder at height 0 has
  the chest estimate 0; the active session appends no breathing sample for it, while the same
  frame at height 1 is appended.
\<close>

theorem trackMovement_zero_chest_dropped:
  "chestPosition (getKeypoint (shoulderFrame 0) ''left_shoulder'')
     (getKeypoint (shoulderFrame 0) ''right_shoulder'') (getKeypoint (shoulderFrame 0) ''nose'')
     = Some 0 \<and>
   breathingHistory (trackMovement idleStart (shoulderFrame 0) 1000 1000 1000) = [] \<and>
   breathingHistory (trackMovement idleStart (shoulderFrame 1) 1000 1000 1000)
     = [\<lparr>b_timestamp = 1000, b_chestY = 1\<rparr>]"
proof -
  have "chestPosition (getKeypoint (shoulderFrame 0) ''left_shoulder'')
     (getKeypoint (shoulderFrame 0) ''right_shoulder'') (getKeypoint (shoulderFrame 0) ''nose'')
     = Some 0"
    by (simp add: shoulderFrame_def frame_eval chestPosition_def)
  then show ?thesis
    by (simp add: createDataPoint_shoulderFrame trackMovement_def truthyNum_def Let_def
          idleStart_def initialSession_def exerciseSelected_def BREATHING_WINDOW_def orZero_def)
qed

section \<open>Reset\<close>

lemma rerender_deactivate:
  assumes "isActive st"
  shows "movementHistory (rerender st ex False) = [] \<and> repHistory (rerender st ex False) = [] \<and>
   breathingHistory (rerender st ex False) = [] \<and> lastRepTime (rerender st ex False) = None \<and>
   predictions (rerender st ex False) = None"
  using assms by (simp add: rerender_def resetEffect_def)

text \<open>
  Claim C2 at its failing input. The example session with six detected reps is rendered again
  with the exercise changed from squat to push-up while it stays active: the motion window,
  the rep history and the last rep timestamp are all kept.
\<close>

theorem rerender_exercise_change_keeps_buffers:
  "isActive (run angleBetween squatStart ((squatMoves @ sixReps) @ [Rerender (Some ''push-up'') True])) \<and>
   exercise (run angleBetween squatStart ((squatMoves @ sixReps) @ [Rerender (Some ''push-up'') True]))
     = Some ''push-up'' \<and>
   movementHistory (run angleBetween squatStart ((squatMoves @ sixReps) @ [Rerender (Some ''push-up'') True]))
     = squatHistory \<and>
   repHistory (run angleBetween squatStart ((squatMoves @ sixReps) @ [Rerender (Some ''push-up'') True]))
     = map goodRep [3100, 3200, 3300, 3400, 3500] \<and>
   lastRepTime (run angleBetween squatStart ((squatMoves @ sixReps) @ [Rerender (Some ''push-up'') True]))
     = Some 3500"
  unfolding run_append [of _ _ "squatMoves @ sixReps"] run_sixReps
  by (simp add: run_def step_def rerender_def resetEffect_def squatStart_def initialSession_def)

section \<open>Prediction evaluations\<close>

lemma analyzeAndPredict_independent:
  "analyzeAndPredict (st\<lparr>predictions := q\<rparr>) = analyzeAndPredict st"
  "analyzeAndPredict (st\<lparr>lastPredictionTime := t\<rparr>) = analyzeAndPredict st"
  "analysisRuns (st\<lparr>lastPredictionTime := t\<rparr>) = analysisRuns st"
  by (simp_all add: analyzeAndPredict_def analysisRuns_def)

lemma analyzeAndPredict_nonempty: "analyzeAndPredict st = Some p \<Longrightarrow> suggestions p \<noteq> []"
  by (auto simp: analyzeAndPredict_def Let_def split: if_splits)

lemma analyzeAndPredict_runs: "analyzeAndPredict st = Some p \<Longrightarrow> analysisRuns st"
  by (auto simp: analyzeAndPredict_def split: if_splits)

lemma getPredictions_Some:
  assumes "PREDICTION_INTERVAL \<le> now - lastPredictionTime st" and "analyzeAndPredict st = Some p"
  shows "getPredictions st now =
           (Some p, st\<lparr>lastPredictionTime := now, isAnalyzing := False, predictions := Some p\<rparr>)"
  using assms analyzeAndPredict_runs [OF assms(2)]
  by (simp add: getPredictions_def analyzeAndPredict_independent Let_def)

lemma getPredictions_None:
  assumes "PREDICTION_INTERVAL \<le> now - lastPredictionTime st" and "analyzeAndPredict st = None"
    and "analysisRuns st"
  shows "getPredictions st now = (None, st\<lparr>lastPredictionTime := now, isAnalyzing := False\<rparr>)"
  using assms
  by (simp add: getPredictions_def analyzeAndPredict_independent Let_def)

text \<open>
  Claim C5, as the code has it. The result of an evaluation does not depend on the previously
  exposed prediction, and a returned prediction has at least one suggestion. A call at least
  5000 ms after the last evaluation returns the fresh result; a fresh prediction replaces the
  exposed one, but after a fresh \<open>null\<close> the exposed prediction is the previous one. An
  earlier call returns the exposed prediction and changes nothing.
\<close>

theorem getPredictions_recomputes:
  "analyzeAndPredict (st\<lparr>predictions := q\<rparr>) = analyzeAndPredict st \<and>
   (\<forall>p. analyzeAndPredict st = Some p \<longrightarrow> suggestions p \<noteq> []) \<and>
   (PREDICTION_INTERVAL \<le> now - lastPredictionTime st \<longrightarrow>
      fst (getPredictions st now) = analyzeAndPredict st \<and>
      predictions (snd (getPredictions st now)) =
        (case analyzeAndPredict st of Some p \<Rightarrow> Some p | None \<Rightarrow> predictions st)) \<and>
   (now - lastPredictionTime st < PREDICTION_INTERVAL \<longrightarrow>
      getPredictions st now = (predictions st, st))"
  using analyzeAndPredict_nonempty [of st]
  by (auto simp: getPredictions_def analyzeAndPredict_independent Let_def split: option.splits)

lemma run_slowReps:
  "run ca squatStart (squatMoves @ slowReps) =
     squatStart\<lparr>movementHistory := squatHistory,
                repHistory := map slowRep [5000, 7000, 9000, 11000, 13000],
                lastRepTime := Some 13000\<rparr>"
  by (simp add: run_append run_squatMoves)
     (simp add: run_def slowReps_def step_repAt recordRep_first recordRep_next slowRep_def
        squatStart_def initialSession_def)

lemmas slow_eval = predict_eval slowRep_def fiveRepPrediction_def

lemma predict_slowReps:
  "analyzeAndPredict (squatStart\<lparr>movementHistory := squatHistory,
                repHistory := map slowRep [5000, 7000, 9000, 11000, 13000],
                lastRepTime := Some 13000\<rparr>) = Some fiveRepPrediction"
proof -
  have n: "Suc (Suc (Suc (Suc (Suc 0)))) = 5"
    by simp
  show ?thesis
    by (simp add: slow_eval n)
qed

text \<open>
  The example session with six reps 2000 ms apart, evaluated at time 13500, returns and
  exposes the prediction with the encouragement for 5 reps.
\<close>

theorem getPredictions_recomputes_witness:
  "fst (getPredictions (run angleBetween squatStart (squatMoves @ slowReps)) 13500)
     = Some fiveRepPrediction \<and>
   predictions (snd (getPredictions (run angleBetween squatStart (squatMoves @ slowReps)) 13500))
     = Some fiveRepPrediction"
proof -
  let ?st = "run angleBetween squatStart (squatMoves @ slowReps)"
  have t: "PREDICTION_INTERVAL \<le> 13500 - lastPredictionTime ?st"
    unfolding run_slowReps by (simp add: PREDICTION_INTERVAL_def squatStart_def initialSession_def)
  have a: "analyzeAndPredict ?st = Some fiveRepPrediction"
    unfolding run_slowReps by (rule predict_slowReps)
  show ?thesis
    using getPredictions_recomputes [where st = ?st and now = 13500] t a by simp
qed

text \<open>
  Against C5 as stated: after that evaluation and a seventh rep, the evaluation at time 18500
  runs, generates no suggestion and returns \<open>null\<close>, yet the exposed prediction is still the
  one of the evaluation before.
\<close>

theorem getPredictions_stale_counterexample:
  "predictions (run angleBetween squatStart
       ((squatMoves @ slowReps) @ [GetPredictions 13500, repAt 15000])) = Some fiveRepPrediction \<and>
   analysisRuns (run angleBetween squatStart
       ((squatMoves @ slowReps) @ [GetPredictions 13500, repAt 15000])) \<and>
   fst (getPredictions (run angleBetween squatStart
       ((squatMoves @ slowReps) @ [GetPredictions 13500, repAt 15000])) 18500) = None \<and>
   predictions (snd (getPredictions (run angleBetween squatStart
       ((squatMoves @ slowReps) @ [GetPredictions 13500, repAt 15000])) 18500))
     = Some fiveRepPrediction"
proof -
  let ?st = "run angleBetween squatStart ((squatMoves @ slowReps) @ [GetPredictions 13500, repAt 15000])"
  let ?s6 = "squatStart\<lparr>movementHistory := squatHistory,
                repHistory := map slowRep [5000, 7000, 9000, 11000, 13000, 15000],
                lastRepTime := Some 15000, lastPredictionTime := 13500,
                predictions := Some fiveRepPrediction\<rparr>"
  let ?s5 = "squatStart\<lparr>movementHistory := squatHistory,
                repHistory := map slowRep [5000, 7000, 9000, 11000, 13000],
                lastRepTime := Some 13000\<rparr>"
  have t: "PREDICTION_INTERVAL \<le> 13500 - lastPredictionTime ?s5"
    by (simp add: PREDICTION_INTERVAL_def squatStart_def initialSession_def)
  have g: "step angleBetween ?s5 (GetPredictions 13500) =
             ?s5\<lparr>lastPredictionTime := 13500, isAnalyzing := False,
                  predictions := Some fiveRepPrediction\<rparr>"
    unfolding step_def by (simp only: event.simps getPredictions_Some [OF t predict_slowReps] snd_conv)
  have "?st = step angleBetween (step angleBetween ?s5 (GetPredictions 13500)) (repAt 15000)"
    unfolding run_append [of _ _ "squatMoves @ slowReps"] run_slowReps
    by (simp only: run_def foldl_Cons foldl_Nil)
  also have "\<dots> = step angleBetween
      (?s5\<lparr>lastPredictionTime := 13500, isAnalyzing := False,
           predictions := Some fiveRepPrediction\<rparr>) (repAt 15000)"
    by (simp only: g)
  also have "\<dots> = ?s6"
    by (simp add: step_repAt recordRep_next slowRep_def squatStart_def initialSession_def)
  finally have st: "?st = ?s6" .
  have t6: "PREDICTION_INTERVAL \<le> 18500 - lastPredictionTime ?s6"
    by (simp add: PREDICTION_INTERVAL_def)
  have a: "analyzeAndPredict ?s6 = None"
    by (simp add: slow_eval)
  have r: "analysisRuns ?s6"
    by (simp add: slow_eval)
  have gp: "getPredictions ?s6 18500 = (None, ?s6\<lparr>lastPredictionTime := 18500, isAnalyzing := False\<rparr>)"
    by (rule getPredictions_None [OF t6 a r])
  show ?thesis
    unfolding st gp using r by simp
qed

end
